theory Spec2Isabelle
  imports Complex_Main
begin

section \<open>Data model (AuthContext.tsx, ExpenseContext.tsx)\<close>

text \<open>
  The TypeScript unions \<^verbatim>\<open>UserRole\<close>, \<^verbatim>\<open>ExpenseStatus\<close> and \<^verbatim>\<open>ExpenseCategory\<close> are
  datatypes. Strings are \<^typ>\<open>string\<close>; a character stands for a code point of the
  Latin-1 range. A JavaScript \<^verbatim>\<open>number\<close> is \<open>NaN\<close>, an infinity or a finite number,
  held as the real it denotes. \<open>Null\<close> is the value \<^verbatim>\<open>null\<close>, which an amount holds once a
  \<open>NaN\<close> or an infinity has passed through JSON.
\<close>

datatype UserRole = Employee | Manager | Admin

datatype ExpenseStatus = Draft | Submitted | Approved | Rejected

datatype ExpenseCategory = Travel | Meals | Accommodation | Equipment | Office | Other

datatype number = NaN | Num real | PosInfinity | NegInfinity | Null

text \<open>
  \<^verbatim>\<open>n > 0\<close>, \<^verbatim>\<open>n <= 0\<close> and \<^verbatim>\<open>isNaN(n)\<close>: a comparison with \<open>NaN\<close> is false, and
  \<^verbatim>\<open>null\<close> counts as zero.
\<close>

fun gt0 :: "number \<Rightarrow> bool" where
  "gt0 NaN = False"
| "gt0 (Num x) = (0 < x)"
| "gt0 PosInfinity = True"
| "gt0 NegInfinity = False"
| "gt0 Null = False"

fun le0 :: "number \<Rightarrow> bool" where
  "le0 NaN = False"
| "le0 (Num x) = (x \<le> 0)"
| "le0 PosInfinity = False"
| "le0 NegInfinity = True"
| "le0 Null = True"

fun isNaN :: "number \<Rightarrow> bool" where
  "isNaN NaN = True"
| "isNaN (Num x) = False"
| "isNaN PosInfinity = False"
| "isNaN NegInfinity = False"
| "isNaN Null = False"

text \<open>\<^verbatim>\<open>interface User\<close>; the field \<^verbatim>\<open>id\<close> is \<open>uid\<close>.\<close>

record User =
  uid :: string
  name :: string
  email :: string
  role :: UserRole
  department :: "string option"
  avatar :: "string option"

text \<open>
  \<^verbatim>\<open>interface Expense\<close>. The fields that \<^verbatim>\<open>createExpense\<close> accepts,
  \<^verbatim>\<open>Omit<Expense, 'id' | 'submittedBy' | 'submittedByName' | 'submittedAt'>\<close>, make up
  \<open>ExpenseData\<close>; \<open>Expense\<close> extends it with the four omitted fields (\<^verbatim>\<open>id\<close> is
  \<open>eid\<close>). As in TypeScript, a function on \<open>'a ExpenseData_scheme\<close> accepts an object
  that carries more fields than the type asks for. An optional field is an option,
  \<open>None\<close> when the key is absent or \<^verbatim>\<open>undefined\<close>.
\<close>

record ExpenseData =
  title :: string
  amount :: number
  date :: string
  category :: ExpenseCategory
  description :: string
  status :: ExpenseStatus
  receiptUrl :: "string option"
  reviewedBy :: "string option"
  reviewedByName :: "string option"
  reviewedAt :: "string option"
  comments :: "string option"

record Expense = ExpenseData +
  eid :: string
  submittedBy :: string
  submittedByName :: string
  submittedAt :: string

text \<open>
  \<^verbatim>\<open>Partial<Expense>\<close>: every key may be absent (\<open>None\<close>). For an optional field the
  key may also be present with the value \<^verbatim>\<open>undefined\<close> (\<open>Some None\<close>), which is what
  \<^verbatim>\<open>approveExpense(id)\<close> passes for \<^verbatim>\<open>comments\<close>.
\<close>

record ExpensePartial =
  p_eid :: "string option"
  p_title :: "string option"
  p_amount :: "number option"
  p_date :: "string option"
  p_category :: "ExpenseCategory option"
  p_description :: "string option"
  p_status :: "ExpenseStatus option"
  p_receiptUrl :: "string option option"
  p_submittedBy :: "string option"
  p_submittedByName :: "string option"
  p_submittedAt :: "string option"
  p_reviewedBy :: "string option option"
  p_reviewedByName :: "string option option"
  p_reviewedAt :: "string option option"
  p_comments :: "string option option"

definition noFields :: ExpensePartial where
  "noFields = \<lparr> p_eid = None, p_title = None, p_amount = None, p_date = None,
     p_category = None, p_description = None, p_status = None, p_receiptUrl = None,
     p_submittedBy = None, p_submittedByName = None, p_submittedAt = None,
     p_reviewedBy = None, p_reviewedByName = None, p_reviewedAt = None,
     p_comments = None \<rparr>"

text \<open>One key of the object spread \<^verbatim>\<open>{ ...old, ...data }\<close>: a present key wins.\<close>

fun override :: "'a \<Rightarrow> 'a option \<Rightarrow> 'a" where
  "override old None = old"
| "override old (Some v) = v"

definition spread :: "Expense \<Rightarrow> ExpensePartial \<Rightarrow> Expense" where
  "spread e p = \<lparr>
     title = override (title e) (p_title p),
     amount = override (amount e) (p_amount p),
     date = override (date e) (p_date p),
     category = override (category e) (p_category p),
     description = override (description e) (p_description p),
     status = override (status e) (p_status p),
     receiptUrl = override (receiptUrl e) (p_receiptUrl p),
     reviewedBy = override (reviewedBy e) (p_reviewedBy p),
     reviewedByName = override (reviewedByName e) (p_reviewedByName p),
     reviewedAt = override (reviewedAt e) (p_reviewedAt p),
     comments = override (comments e) (p_comments p),
     eid = override (eid e) (p_eid p),
     submittedBy = override (submittedBy e) (p_submittedBy p),
     submittedByName = override (submittedByName e) (p_submittedByName p),
     submittedAt = override (submittedAt e) (p_submittedAt p) \<rparr>"

section \<open>State\<close>

text \<open>
  JSON. \<^verbatim>\<open>JSON.stringify\<close> writes an amount that is \<open>NaN\<close> or an infinity as \<^verbatim>\<open>null\<close>
  and a finite amount as the number it is; it leaves out a key whose value is
  \<^verbatim>\<open>undefined\<close>, and the strings come back as they were. So a record comes back from
  the stored text with its amount changed by \<open>jsonAmount\<close> and nothing else changed.
  The stored text is held as the list of records it describes: \<open>JSON_stringify\<close>
  gives the records as the text written for a list describes them, and \<open>JSON_parse\<close>
  reads them back; no text describes a non-finite amount, and \<open>JSON_parse\<close> reads
  one as \<^verbatim>\<open>null\<close> too, so that every value of the storage stands for a text.
\<close>

fun jsonAmount :: "number \<Rightarrow> number" where
  "jsonAmount NaN = Null"
| "jsonAmount (Num x) = Num x"
| "jsonAmount PosInfinity = Null"
| "jsonAmount NegInfinity = Null"
| "jsonAmount Null = Null"

definition jsonExpense :: "Expense \<Rightarrow> Expense" where
  "jsonExpense e = e\<lparr> amount := jsonAmount (amount e) \<rparr>"

definition JSON_stringify :: "Expense list \<Rightarrow> Expense list" where
  "JSON_stringify xs = map jsonExpense xs"

definition JSON_parse :: "Expense list \<Rightarrow> Expense list" where
  "JSON_parse t = map jsonExpense t"

text \<open>
  \<open>storage\<close> is the \<^verbatim>\<open>localStorage\<close> item \<^verbatim>\<open>'expenses'\<close> (\<open>None\<close> when the item is
  absent), \<open>user\<close> the session principal of \<^verbatim>\<open>AuthContext\<close>, and \<open>expenses\<close>,
  \<open>loading\<close>, \<open>error\<close> the React state of \<^verbatim>\<open>ExpenseProvider\<close>. The operations are
  modelled as run to completion one after the other; an operation returns the value of
  its promise (\<open>Inl\<close> when it rejects) and the state it leaves.
\<close>

record AppState =
  storage :: "Expense list option"
  user :: "User option"
  expenses :: "Expense list"
  loading :: bool
  error :: "string option"

datatype Error = UserNotAuthenticated | ExpenseNotFound

text \<open>\<^verbatim>\<open>storedExpenses ? JSON.parse(storedExpenses) : []\<close>\<close>

definition allExpenses :: "AppState \<Rightarrow> Expense list" where
  "allExpenses st = (case storage st of None \<Rightarrow> [] | Some t \<Rightarrow> JSON_parse t)"

text \<open>\<^verbatim>\<open>Array.prototype.findIndex\<close>; \<open>None\<close> is the result \<^verbatim>\<open>-1\<close>.\<close>

fun findIndex :: "('a \<Rightarrow> bool) \<Rightarrow> 'a list \<Rightarrow> nat option" where
  "findIndex P [] = None"
| "findIndex P (x # xs) = (if P x then Some 0 else map_option Suc (findIndex P xs))"

section \<open>Expense operations (ExpenseContext.tsx)\<close>

definition loadExpenses :: "AppState \<Rightarrow> AppState" where
  "loadExpenses st =
     (let allE = allExpenses st;
          visible = (case user st of
                       None \<Rightarrow> allE
                     | Some u \<Rightarrow> if role u = Employee
                                 then filter (\<lambda>e. submittedBy e = uid u) allE
                                 else allE)
      in st\<lparr> expenses := visible, loading := False \<rparr>)"

definition getExpenseById :: "AppState \<Rightarrow> string \<Rightarrow> Expense option" where
  "getExpenseById st i = find (\<lambda>e. eid e = i) (expenses st)"

text \<open>
  \<open>nowId\<close> is \<^verbatim>\<open>Date.now().toString()\<close> and \<open>nowIso\<close> is
  \<^verbatim>\<open>new Date().toISOString()\<close> at the time of the call.
\<close>

definition createExpense ::
  "string \<Rightarrow> string \<Rightarrow> 'a ExpenseData_scheme \<Rightarrow> AppState \<Rightarrow> (Error + Expense) \<times> AppState" where
  "createExpense nowId nowIso expenseData st =
     (case user st of
        None \<Rightarrow> (Inl UserNotAuthenticated,
                 st\<lparr> loading := False, error := Some ''Failed to create expense'' \<rparr>)
      | Some u \<Rightarrow>
          (let newExpense = \<lparr>
                 title = title expenseData,
                 amount = amount expenseData,
                 date = date expenseData,
                 category = category expenseData,
                 description = description expenseData,
                 status = Draft,
                 receiptUrl = receiptUrl expenseData,
                 reviewedBy = reviewedBy expenseData,
                 reviewedByName = reviewedByName expenseData,
                 reviewedAt = reviewedAt expenseData,
                 comments = comments expenseData,
                 eid = nowId,
                 submittedBy = uid u,
                 submittedByName = name u,
                 submittedAt = nowIso \<rparr>;
               updatedExpenses = allExpenses st @ [newExpense]
           in (Inr newExpense,
               loadExpenses (st\<lparr> storage := Some (JSON_stringify updatedExpenses) \<rparr>))))"

definition updateExpense ::
  "string \<Rightarrow> ExpensePartial \<Rightarrow> AppState \<Rightarrow> (Error + Expense) \<times> AppState" where
  "updateExpense i expenseData st =
     (let allE = allExpenses st
      in case findIndex (\<lambda>e. eid e = i) allE of
           None \<Rightarrow> (Inl ExpenseNotFound,
                    st\<lparr> loading := False, error := Some ''Failed to update expense'' \<rparr>)
         | Some expenseIndex \<Rightarrow>
             (let updatedExpense = spread (allE ! expenseIndex) expenseData
              in (Inr updatedExpense,
                  loadExpenses
                    (st\<lparr> storage :=
                          Some (JSON_stringify (allE[expenseIndex := updatedExpense])) \<rparr>))))"

definition deleteExpense :: "string \<Rightarrow> AppState \<Rightarrow> (Error + unit) \<times> AppState" where
  "deleteExpense i st =
     (let updatedExpenses = filter (\<lambda>e. eid e \<noteq> i) (allExpenses st)
      in (Inr (), loadExpenses (st\<lparr> storage := Some (JSON_stringify updatedExpenses) \<rparr>)))"

definition submitExpense :: "string \<Rightarrow> AppState \<Rightarrow> (Error + Expense) \<times> AppState" where
  "submitExpense i st = updateExpense i (noFields\<lparr> p_status := Some Submitted \<rparr>) st"

definition approveExpense ::
  "string \<Rightarrow> string \<Rightarrow> string option \<Rightarrow> AppState \<Rightarrow> (Error + Expense) \<times> AppState" where
  "approveExpense nowIso i cmts st =
     (case user st of
        None \<Rightarrow> (Inl UserNotAuthenticated, st)
      | Some u \<Rightarrow>
          updateExpense i
            (noFields\<lparr> p_status := Some Approved,
                       p_reviewedBy := Some (Some (uid u)),
                       p_reviewedByName := Some (Some (name u)),
                       p_reviewedAt := Some (Some nowIso),
                       p_comments := Some cmts \<rparr>) st)"

definition rejectExpense ::
  "string \<Rightarrow> string \<Rightarrow> string \<Rightarrow> AppState \<Rightarrow> (Error + Expense) \<times> AppState" where
  "rejectExpense nowIso i cmts st =
     (case user st of
        None \<Rightarrow> (Inl UserNotAuthenticated, st)
      | Some u \<Rightarrow>
          updateExpense i
            (noFields\<lparr> p_status := Some Rejected,
                       p_reviewedBy := Some (Some (uid u)),
                       p_reviewedByName := Some (Some (name u)),
                       p_reviewedAt := Some (Some nowIso),
                       p_comments := Some (Some cmts) \<rparr>) st)"

section \<open>Role check (AuthContext.tsx)\<close>

definition checkRole :: "AppState \<Rightarrow> UserRole list \<Rightarrow> bool" where
  "checkRole st roles = (case user st of None \<Rightarrow> False | Some u \<Rightarrow> role u \<in> set roles)"

section \<open>Detail page (ExpenseDetail.tsx)\<close>

text \<open>
  \<^verbatim>\<open>String.prototype.trim\<close> on the Latin-1 range: tab, line feed, vertical tab, form
  feed, carriage return, space and no-break space are stripped from both ends.
\<close>

definition isWhiteSpace :: "char \<Rightarrow> bool" where
  "isWhiteSpace c = (of_char c \<in> {9, 10, 11, 12, 13, 32, 160 :: nat})"

definition trim :: "string \<Rightarrow> string" where
  "trim s = rev (dropWhile isWhiteSpace (rev (dropWhile isWhiteSpace s)))"

datatype Toast = ToastSuccess string | ToastError string

text \<open>
  The route parameter \<^verbatim>\<open>id\<close> is \<open>None\<close> when the route has none. The page's constant
  \<^verbatim>\<open>expense\<close> is \<^verbatim>\<open>id ? getExpenseById(id) : undefined\<close>.
\<close>

definition expense :: "AppState \<Rightarrow> string option \<Rightarrow> Expense option" where
  "expense st idp =
     (case idp of None \<Rightarrow> None | Some i \<Rightarrow> if i = [] then None else getExpenseById st i)"

definition canEdit :: "AppState \<Rightarrow> string option \<Rightarrow> bool" where
  "canEdit st idp =
     (case user st of None \<Rightarrow> False | Some u \<Rightarrow>
        (case expense st idp of None \<Rightarrow> False | Some e \<Rightarrow>
           submittedBy e = uid u \<and> (status e = Draft \<or> status e = Rejected)))"

definition canDelete :: "AppState \<Rightarrow> string option \<Rightarrow> bool" where
  "canDelete st idp =
     (case user st of None \<Rightarrow> False | Some u \<Rightarrow>
        (case expense st idp of None \<Rightarrow> False | Some e \<Rightarrow>
           submittedBy e = uid u \<and> status e = Draft))"

definition canReview :: "AppState \<Rightarrow> string option \<Rightarrow> bool" where
  "canReview st idp =
     (case user st of None \<Rightarrow> False | Some u \<Rightarrow>
        (case expense st idp of None \<Rightarrow> False | Some e \<Rightarrow>
           checkRole st [Manager, Admin] \<and> status e = Submitted))"

definition canSubmit :: "AppState \<Rightarrow> string option \<Rightarrow> bool" where
  "canSubmit st idp =
     (case user st of None \<Rightarrow> False | Some u \<Rightarrow>
        (case expense st idp of None \<Rightarrow> False | Some e \<Rightarrow>
           submittedBy e = uid u \<and> status e = Draft))"

text \<open>
  \<^verbatim>\<open>handleReject\<close> with the text of the comments box. The result lists the toasts shown;
  navigation and the page's busy flags are left out.
\<close>

definition handleReject ::
  "string \<Rightarrow> string option \<Rightarrow> string \<Rightarrow> AppState \<Rightarrow> Toast list \<times> AppState" where
  "handleReject nowIso idp cmts st =
     (case idp of
        None \<Rightarrow> ([], st)
      | Some i \<Rightarrow>
          if i = [] \<or> expense st idp = None then ([], st)
          else if trim cmts = [] then
            ([ToastError ''Please provide a reason for rejection''], st)
          else
            (case rejectExpense nowIso i cmts st of
               (Inr r, st') \<Rightarrow> ([ToastSuccess ''Expense rejected''], st')
             | (Inl err, st') \<Rightarrow> ([ToastError ''Failed to reject expense''], st')))"

section \<open>Expense form (ExpenseForm.tsx)\<close>

text \<open>
  The form's fields. \<open>f_amount\<close> is the text of the amount box; \<open>f_fileSelected\<close> is
  the chosen file, named by the URL that \<^verbatim>\<open>URL.createObjectURL\<close> gives it.
\<close>

record FormState =
  f_title :: string
  f_amount :: string
  f_date :: string
  f_category :: ExpenseCategory
  f_description :: string
  f_receiptUrl :: string
  f_fileSelected :: "string option"

text \<open>
  \<^verbatim>\<open>validateForm\<close>: the entries of \<^verbatim>\<open>errors\<close> in the order they are written.
  \<open>toNumber\<close> is JavaScript's \<^verbatim>\<open>Number\<close> on strings, a parameter.
\<close>

definition formErrors :: "(string \<Rightarrow> number) \<Rightarrow> FormState \<Rightarrow> (string \<times> string) list" where
  "formErrors toNumber f =
     (if trim (f_title f) = [] then [(''title'', ''Title is required'')] else []) @
     (if f_amount f = [] \<or> isNaN (toNumber (f_amount f)) \<or> le0 (toNumber (f_amount f))
      then [(''amount'', ''Amount must be a positive number'')] else []) @
     (if f_date f = [] then [(''date'', ''Date is required'')] else []) @
     (if trim (f_description f) = [] then [(''description'', ''Description is required'')] else [])"

definition validateForm :: "(string \<Rightarrow> number) \<Rightarrow> FormState \<Rightarrow> bool" where
  "validateForm toNumber f = (formErrors toNumber f = [])"

text \<open>
  The object literal \<^verbatim>\<open>expenseData\<close> of \<^verbatim>\<open>handleSubmit\<close>, with its seven keys, as
  \<^verbatim>\<open>createExpense\<close> reads it and as \<^verbatim>\<open>updateExpense\<close> reads it. \<open>parseFloat\<close> is
  JavaScript's \<^verbatim>\<open>parseFloat\<close>, a parameter.
\<close>

definition uploadedReceiptUrl :: "FormState \<Rightarrow> string" where
  "uploadedReceiptUrl f = (case f_fileSelected f of None \<Rightarrow> f_receiptUrl f | Some url \<Rightarrow> url)"

definition expenseDataNew :: "(string \<Rightarrow> number) \<Rightarrow> FormState \<Rightarrow> ExpenseData" where
  "expenseDataNew parseFloat f = \<lparr>
     title = f_title f,
     amount = parseFloat (f_amount f),
     date = f_date f,
     category = f_category f,
     description = f_description f,
     status = Draft,
     receiptUrl = Some (uploadedReceiptUrl f),
     reviewedBy = None,
     reviewedByName = None,
     reviewedAt = None,
     comments = None \<rparr>"

definition expenseDataEdit :: "(string \<Rightarrow> number) \<Rightarrow> FormState \<Rightarrow> ExpensePartial" where
  "expenseDataEdit parseFloat f =
     noFields\<lparr> p_title := Some (f_title f),
               p_amount := Some (parseFloat (f_amount f)),
               p_date := Some (f_date f),
               p_category := Some (f_category f),
               p_description := Some (f_description f),
               p_receiptUrl := Some (Some (uploadedReceiptUrl f)),
               p_status := Some Draft \<rparr>"

text \<open>The tail of \<^verbatim>\<open>handleSubmit\<close>: submit the saved expense unless saving as draft.\<close>

definition submitSaved :: "Toast list \<Rightarrow> Expense \<Rightarrow> bool \<Rightarrow> AppState \<Rightarrow> Toast list \<times> AppState" where
  "submitSaved toasts savedExpense submitAsDraft st =
     (if \<not> submitAsDraft then
        (case submitExpense (eid savedExpense) st of
           (Inr submitted, st') \<Rightarrow> (toasts @ [ToastSuccess ''Expense submitted for approval''], st')
         | (Inl err, st') \<Rightarrow> (toasts @ [ToastError ''Failed to save expense. Please try again.''], st'))
      else (toasts, st))"

text \<open>
  \<^verbatim>\<open>isEditMode && id\<close>: the id being edited, when the route parameter is a non-empty
  string.
\<close>

definition editId :: "string option \<Rightarrow> string option" where
  "editId idp = (case idp of None \<Rightarrow> None | Some i \<Rightarrow> if i = [] then None else Some i)"

text \<open>
  \<^verbatim>\<open>handleSubmit\<close> of the form; \<open>idp\<close> is the route parameter. A failed validation
  returns before any call. An operation that rejects is caught with the error toast.
  The tests \<^verbatim>\<open>if (!savedExpense)\<close> and \<^verbatim>\<open>if (submitted)\<close> are on objects the operations
  return, which are never falsy, so they have no branch here.
\<close>

definition handleSubmit ::
  "(string \<Rightarrow> number) \<Rightarrow> (string \<Rightarrow> number) \<Rightarrow> string \<Rightarrow> string \<Rightarrow> string option \<Rightarrow>
   FormState \<Rightarrow> bool \<Rightarrow> AppState \<Rightarrow> Toast list \<times> AppState" where
  "handleSubmit toNumber parseFloat nowId nowIso idp f submitAsDraft st =
     (if \<not> validateForm toNumber f then ([], st)
      else
        (case editId idp of
           Some i \<Rightarrow>
             (case getExpenseById st i of
                None \<Rightarrow> ([ToastError ''Cannot update: Expense no longer exists''], st)
              | Some existingExpense \<Rightarrow>
                  (case updateExpense i (expenseDataEdit parseFloat f) st of
                     (Inr savedExpense, st') \<Rightarrow>
                       submitSaved [ToastSuccess ''Expense updated successfully'']
                         savedExpense submitAsDraft st'
                   | (Inl err, st') \<Rightarrow>
                       ([ToastError ''Failed to save expense. Please try again.''], st')))
         | None \<Rightarrow>
             (case createExpense nowId nowIso (expenseDataNew parseFloat f) st of
                (Inr savedExpense, st') \<Rightarrow>
                  submitSaved [ToastSuccess ''Expense created successfully'']
                    savedExpense submitAsDraft st'
              | (Inl err, st') \<Rightarrow>
                  ([ToastError ''Failed to save expense. Please try again.''], st'))))"

section \<open>Addition of numbers (binary64)\<close>

text \<open>
  The report page adds amounts with \<^verbatim>\<open>+\<close> on numbers, the addition of IEEE 754
  binary64: the exact sum rounded to the nearest number with a significand of 53 bits,
  a tie going to the even significand, and to an infinity when the rounded value
  reaches \<open>2 ^ 1024\<close>. \<open>roundHalfEven\<close> rounds a real to the nearest integer, a tie to
  the even one. The operations of the expense context only store, copy and compare
  amounts, and there a decimal literal of the source is written as the real of that
  decimal; where amounts are added, in the examples for the report page, an amount
  written as a decimal is the binary64 number for it.
\<close>

definition roundHalfEven :: "real \<Rightarrow> int" where
  "roundHalfEven q =
     (let n = \<lfloor>q\<rfloor>; r = q - of_int n
      in if r < 1 / 2 then n else if 1 / 2 < r then n + 1 else if even n then n else n + 1)"

text \<open>
  \<open>expo a\<close> is the binary exponent of a positive real: the \<open>e\<close> with
  \<open>2 ^ e \<le> a < 2 ^ (e + 1)\<close>. \<open>expoHigh\<close> counts the halvings that take a number from
  \<open>1\<close> on below \<open>2\<close>, \<open>expoLow\<close> the doublings that take a number below \<open>1\<close> to \<open>1\<close>
  or above.
\<close>

function expoHigh :: "real \<Rightarrow> int" where
  "expoHigh a = (if 2 \<le> a then expoHigh (a / 2) + 1 else 0)"
  by pat_completeness auto
termination
proof (relation "measure (\<lambda>a. nat \<lfloor>a\<rfloor>)")
  fix a :: real assume a: "2 \<le> a"
  have "\<lfloor>a / 2\<rfloor> < \<lfloor>a\<rfloor>"
  proof -
    have "of_int (\<lfloor>a / 2\<rfloor> + 1) \<le> a"
      using of_int_floor_le [of "a / 2"] a by simp
    then have "\<lfloor>a / 2\<rfloor> + 1 \<le> \<lfloor>a\<rfloor>" by (simp only: le_floor_iff)
    then show ?thesis by simp
  qed
  moreover have "0 < \<lfloor>a\<rfloor>" using a by simp
  ultimately show "(a / 2, a) \<in> measure (\<lambda>a. nat \<lfloor>a\<rfloor>)" by simp
qed simp

function expoLow :: "real \<Rightarrow> int" where
  "expoLow a = (if 0 < a \<and> a < 1 then expoLow (2 * a) - 1 else 0)"
  by pat_completeness auto
termination
proof (relation "measure (\<lambda>a. nat \<lfloor>1 / a\<rfloor>)")
  fix a :: real assume a: "0 < a \<and> a < 1"
  then have y: "1 < 1 / a" by simp
  have "of_int (\<lfloor>1 / (2 * a)\<rfloor> + 1) \<le> 1 / a"
  proof (cases "2 \<le> 1 / a")
    case True
    have "of_int \<lfloor>1 / (2 * a)\<rfloor> \<le> 1 / (2 * a)" by (rule of_int_floor_le)
    also have "\<dots> = (1 / a) / 2" by simp
    finally have "of_int \<lfloor>1 / (2 * a)\<rfloor> + 1 \<le> (1 / a) / 2 + 1" by simp
    also have "\<dots> \<le> 1 / a" using True by simp
    finally show ?thesis by simp
  next
    case False
    then have "1 / (2 * a) < 1" using a by (simp add: field_simps)
    moreover have "0 \<le> 1 / (2 * a)" using a by simp
    ultimately have "\<lfloor>1 / (2 * a)\<rfloor> = 0" by (simp add: floor_eq_iff)
    then show ?thesis using y by simp
  qed
  then have "\<lfloor>1 / (2 * a)\<rfloor> + 1 \<le> \<lfloor>1 / a\<rfloor>" by (simp only: le_floor_iff)
  moreover have "0 < \<lfloor>1 / a\<rfloor>" using y by simp
  ultimately show "(2 * a, a) \<in> measure (\<lambda>a. nat \<lfloor>1 / a\<rfloor>)" by simp
qed simp

definition expo :: "real \<Rightarrow> int" where
  "expo a = (if 1 \<le> a then expoHigh a else expoLow a)"

text \<open>
  \<open>round64 x\<close> is the binary64 number for the real \<open>x\<close>. The numbers with exponent
  \<open>e\<close> are the whole multiples of \<open>u = 2 ^ (e - 52)\<close>; below \<open>2 ^ - 1022\<close> (the subnormal
  numbers) the step stays \<open>2 ^ - 1074\<close>. The two zeros are one value, \<open>Num 0\<close>.
\<close>

definition round64 :: "real \<Rightarrow> number" where
  "round64 x =
     (let a = \<bar>x\<bar>;
          u = 2 powi (max (expo a) (- 1022) - 52);
          r = of_int (roundHalfEven (a / u)) * u
      in if 2 powi 1024 \<le> r then (if 0 < x then PosInfinity else NegInfinity)
         else Num (if x < 0 then - r else r))"

text \<open>
  \<^verbatim>\<open>a + b\<close> on two values that are numbers or \<^verbatim>\<open>null\<close>: \<open>NaN\<close> spreads, infinities of
  opposite sign give \<open>NaN\<close>, \<^verbatim>\<open>null\<close> is converted to \<open>0\<close>, and the sum of two finite
  numbers is rounded.
\<close>

fun plusNumber :: "number \<Rightarrow> number \<Rightarrow> number" where
  "plusNumber NaN b = NaN"
| "plusNumber a NaN = NaN"
| "plusNumber PosInfinity NegInfinity = NaN"
| "plusNumber NegInfinity PosInfinity = NaN"
| "plusNumber PosInfinity b = PosInfinity"
| "plusNumber a PosInfinity = PosInfinity"
| "plusNumber NegInfinity b = NegInfinity"
| "plusNumber a NegInfinity = NegInfinity"
| "plusNumber (Num x) (Num y) = round64 (x + y)"
| "plusNumber (Num x) Null = round64 (x + 0)"
| "plusNumber Null (Num y) = round64 (0 + y)"
| "plusNumber Null Null = round64 (0 + 0)"

section \<open>Report page (ReportPage.tsx)\<close>

text \<open>
  The two \<^verbatim>\<open>reduce\<close> calls over the list \<^verbatim>\<open>filteredExpenses\<close>, which is their argument
  here. The object \<^verbatim>\<open>acc\<close> is the list of its keys and values, in the order in which the
  keys were first set, which is the order of \<^verbatim>\<open>Object.entries\<close>; \<open>setKey\<close> is the
  assignment \<^verbatim>\<open>acc[k] = v\<close>, and \<open>orZero\<close> of the lookup is \<^verbatim>\<open>acc[k] || 0\<close>: zero when the
  key is absent or its value is \<open>0\<close>, \<open>NaN\<close> or \<^verbatim>\<open>null\<close>.
\<close>

fun orZero :: "number option \<Rightarrow> number" where
  "orZero None = Num 0"
| "orZero (Some n) = (if n = Num 0 \<or> n = NaN \<or> n = Null then Num 0 else n)"

fun setKey :: "'k \<Rightarrow> 'v \<Rightarrow> ('k \<times> 'v) list \<Rightarrow> ('k \<times> 'v) list" where
  "setKey k v [] = [(k, v)]"
| "setKey k v ((k', v') # kvs) = (if k = k' then (k, v) # kvs else (k', v') # setKey k v kvs)"

definition totalAmount :: "Expense list \<Rightarrow> number" where
  "totalAmount filteredExpenses = foldl (\<lambda>sum e. plusNumber sum (amount e)) (Num 0) filteredExpenses"

definition expensesByCategory :: "Expense list \<Rightarrow> (ExpenseCategory \<times> number) list" where
  "expensesByCategory filteredExpenses =
     foldl (\<lambda>acc e. setKey (category e)
                      (plusNumber (orZero (map_of acc (category e))) (amount e)) acc)
       [] filteredExpenses"

text \<open>
  The page shows the category totals one by one and does not add them up.
  \<open>categoryTotalsSum\<close> is the sum the specification speaks of: the category totals
  added with \<^verbatim>\<open>+\<close>, from \<open>0\<close>, in the order of \<^verbatim>\<open>Object.entries\<close>.
\<close>

definition categoryTotalsSum :: "Expense list \<Rightarrow> number" where
  "categoryTotalsSum filteredExpenses =
     foldl plusNumber (Num 0) (map snd (expensesByCategory filteredExpenses))"

text \<open>
  The page keeps the filters as four texts (\<^verbatim>\<open>interface ReportFilters\<close>; the fields carry
  the prefix \<open>r_\<close> here) and \<^verbatim>\<open>filteredExpenses\<close> as state, which an effect computes from
  the visible expenses (\<^verbatim>\<open>expenses\<close> of the context, the list \<open>xs\<close>) and the filters;
  \<open>filteredExpenses\<close> below is that effect. A date text is applied when it is not
  empty, category and status when they are not \<^verbatim>\<open>'all'\<close>; category and status are
  compared as the strings the expense holds. The two comparisons of \<^verbatim>\<open>Date\<close> objects are
  parameters of the embedding: \<open>notBefore d s\<close> stands for
  \<^verbatim>\<open>new Date(d) >= new Date(s)\<close> and \<open>beforeDayAfter d s\<close> for \<^verbatim>\<open>new Date(d) < endDate\<close>,
  where \<^verbatim>\<open>endDate\<close> is the day after \<^verbatim>\<open>new Date(s)\<close>.
\<close>

fun categoryName :: "ExpenseCategory \<Rightarrow> string" where
  "categoryName Travel = ''travel''"
| "categoryName Meals = ''meals''"
| "categoryName Accommodation = ''accommodation''"
| "categoryName Equipment = ''equipment''"
| "categoryName Office = ''office''"
| "categoryName Other = ''other''"

fun statusName :: "ExpenseStatus \<Rightarrow> string" where
  "statusName Draft = ''draft''"
| "statusName Submitted = ''submitted''"
| "statusName Approved = ''approved''"
| "statusName Rejected = ''rejected''"

record ReportFilters =
  r_startDate :: string
  r_endDate :: string
  r_category :: string
  r_status :: string

definition filteredExpenses ::
  "(string \<Rightarrow> string \<Rightarrow> bool) \<Rightarrow> (string \<Rightarrow> string \<Rightarrow> bool) \<Rightarrow> ReportFilters \<Rightarrow>
   Expense list \<Rightarrow> Expense list" where
  "filteredExpenses notBefore beforeDayAfter filters xs =
     (let result = xs;
          result = (if r_startDate filters \<noteq> []
                    then filter (\<lambda>e. notBefore (date e) (r_startDate filters)) result
                    else result);
          result = (if r_endDate filters \<noteq> []
                    then filter (\<lambda>e. beforeDayAfter (date e) (r_endDate filters)) result
                    else result);
          result = (if r_category filters \<noteq> ''all''
                    then filter (\<lambda>e. categoryName (category e) = r_category filters) result
                    else result);
          result = (if r_status filters \<noteq> ''all''
                    then filter (\<lambda>e. statusName (status e) = r_status filters) result
                    else result)
      in result)"

section \<open>Seed data and start-up\<close>

text \<open>Three of the \<^verbatim>\<open>INITIAL_MOCK_USERS\<close> (ids 1, 2 and 4), without their passwords.\<close>

definition johnEmployee :: User where
  "johnEmployee = \<lparr> uid = ''1'', name = ''John Employee'', email = ''employee@example.com'',
     role = Employee, department = Some ''Marketing'',
     avatar = Some ''https://randomuser.me/api/portraits/men/32.jpg'' \<rparr>"

definition sarahManager :: User where
  "sarahManager = \<lparr> uid = ''2'', name = ''Sarah Manager'', email = ''manager@example.com'',
     role = Manager, department = Some ''Finance'',
     avatar = Some ''https://randomuser.me/api/portraits/women/44.jpg'' \<rparr>"

definition emilyJohnson :: User where
  "emilyJohnson = \<lparr> uid = ''4'', name = ''Emily Johnson'', email = ''emily@example.com'',
     role = Employee, department = Some ''Sales'',
     avatar = Some ''https://randomuser.me/api/portraits/women/33.jpg'' \<rparr>"

text \<open>\<^verbatim>\<open>INITIAL_EXPENSES\<close>\<close>

definition expense1 :: Expense where
  "expense1 = \<lparr> title = ''Business Trip to New York'', amount = Num 1250.75,
     date = ''2023-10-15'', category = Travel,
     description = ''Flight and taxi expenses for the quarterly meeting'',
     status = Approved, receiptUrl = Some ''https://example.com/receipt1.pdf'',
     reviewedBy = Some ''2'', reviewedByName = Some ''Sarah Manager'',
     reviewedAt = Some ''2023-10-17T14:20:00Z'', comments = None,
     eid = ''1'', submittedBy = ''1'', submittedByName = ''John Employee'',
     submittedAt = ''2023-10-16T10:30:00Z'' \<rparr>"

definition expense2 :: Expense where
  "expense2 = \<lparr> title = ''Team Lunch'', amount = Num 187.50,
     date = ''2023-10-20'', category = Meals,
     description = ''Team lunch after project completion'',
     status = Submitted, receiptUrl = None,
     reviewedBy = None, reviewedByName = None, reviewedAt = None, comments = None,
     eid = ''2'', submittedBy = ''1'', submittedByName = ''John Employee'',
     submittedAt = ''2023-10-21T09:15:00Z'' \<rparr>"

definition expense3 :: Expense where
  "expense3 = \<lparr> title = ''New Laptop'', amount = Num 1899.99,
     date = ''2023-10-22'', category = Equipment,
     description = ''Replacement laptop for development team'',
     status = Rejected, receiptUrl = Some ''https://example.com/receipt3.pdf'',
     reviewedBy = Some ''2'', reviewedByName = Some ''Sarah Manager'',
     reviewedAt = Some ''2023-10-24T16:30:00Z'',
     comments = Some ''Please use the standard equipment request process instead'',
     eid = ''3'', submittedBy = ''1'', submittedByName = ''John Employee'',
     submittedAt = ''2023-10-23T11:45:00Z'' \<rparr>"

definition INITIAL_EXPENSES :: "Expense list" where
  "INITIAL_EXPENSES = [expense1, expense2, expense3]"

text \<open>
  The provider's first effect: seed the storage when the item is absent, then load.
  \<open>started u\<close> is the state this leaves in a browser with empty storage and session \<open>u\<close>.
\<close>

definition initialize :: "AppState \<Rightarrow> AppState" where
  "initialize st =
     loadExpenses (case storage st of
                     None \<Rightarrow> st\<lparr> storage := Some (JSON_stringify INITIAL_EXPENSES) \<rparr>
                   | Some xs \<Rightarrow> st)"

definition started :: "User option \<Rightarrow> AppState" where
  "started u = initialize \<lparr> storage = None, user = u, expenses = [], loading = True, error = None \<rparr>"

text \<open>
  The provider's second effect reloads the expenses when the session user changes to a
  signed-in user. \<open>withDraft u\<close> holds a draft as \<^verbatim>\<open>createExpense\<close> makes it: John
  creates a taxi expense in the seeded application, then the session changes to \<open>u\<close>;
  \<open>taxiDraft\<close> is the record created.
\<close>

definition taxiData :: ExpenseData where
  "taxiData = \<lparr> title = ''Taxi'', amount = Num 42, date = ''2023-11-02'', category = Travel,
     description = ''Taxi to the airport'', status = Draft, receiptUrl = Some [],
     reviewedBy = None, reviewedByName = None, reviewedAt = None, comments = None \<rparr>"

definition taxiDraft :: Expense where
  "taxiDraft = \<lparr> title = ''Taxi'', amount = Num 42, date = ''2023-11-02'', category = Travel,
     description = ''Taxi to the airport'', status = Draft, receiptUrl = Some [],
     reviewedBy = None, reviewedByName = None, reviewedAt = None, comments = None,
     eid = ''1698912000000'', submittedBy = ''1'', submittedByName = ''John Employee'',
     submittedAt = ''2023-11-02T08:00:00.000Z'' \<rparr>"

definition userChanged :: "User option \<Rightarrow> AppState \<Rightarrow> AppState" where
  "userChanged u st =
     (case u of None \<Rightarrow> st\<lparr> user := None \<rparr> | Some v \<Rightarrow> loadExpenses (st\<lparr> user := Some v \<rparr>))"

definition withDraft :: "User option \<Rightarrow> AppState" where
  "withDraft u =
     userChanged u
       (snd (createExpense ''1698912000000'' ''2023-11-02T08:00:00.000Z'' taxiData
               (started (Some johnEmployee))))"

text \<open>
  A stand-in for \<^verbatim>\<open>Number\<close> and \<^verbatim>\<open>parseFloat\<close> in the examples: it reads the few
  amount texts they use, on which the two functions agree.
\<close>

definition readAmount :: "string \<Rightarrow> number" where
  "readAmount s =
     (if s = ''1899.99'' then Num 1899.99
      else if s = ''42'' then Num 42
      else if s = ''0'' then Num 0
      else if s = ''-5'' then Num (- 5)
      else NaN)"

text \<open>
  Two fillings of the form: the laptop expense as the edit page loads it, unchanged,
  and the taxi draft with a new title.
\<close>

definition laptopForm :: FormState where
  "laptopForm = \<lparr> f_title = ''New Laptop'', f_amount = ''1899.99'', f_date = ''2023-10-22'',
     f_category = Equipment, f_description = ''Replacement laptop for development team'',
     f_receiptUrl = ''https://example.com/receipt3.pdf'', f_fileSelected = None \<rparr>"

definition taxiForm :: FormState where
  "taxiForm = \<lparr> f_title = ''Taxi to JFK'', f_amount = ''42'', f_date = ''2023-11-02'',
     f_category = Travel, f_description = ''Taxi to the airport'',
     f_receiptUrl = [], f_fileSelected = None \<rparr>"

text \<open>
  Examples for the report page: filters that are all unset and filters that select the
  category travel, a comparison of dates that holds for all dates, three small expenses
  whose amounts are the numbers written \<^verbatim>\<open>0.1\<close>, \<^verbatim>\<open>0.2\<close> and \<^verbatim>\<open>0.3\<close>, and a large and a
  small expense. \<open>quarters e\<close> is the amount of \<open>e\<close> counted in quarters of a unit.
\<close>

definition always :: "string \<Rightarrow> string \<Rightarrow> bool" where
  "always a b = True"

definition noFilters :: ReportFilters where
  "noFilters = \<lparr> r_startDate = [], r_endDate = [], r_category = ''all'', r_status = ''all'' \<rparr>"

definition travelOnly :: ReportFilters where
  "travelOnly = \<lparr> r_startDate = [], r_endDate = [], r_category = ''travel'', r_status = ''all'' \<rparr>"

definition busFare :: Expense where
  "busFare = taxiDraft\<lparr> title := ''Bus'', amount := round64 (1 / 10), category := Travel \<rparr>"

definition coffee :: Expense where
  "coffee = taxiDraft\<lparr> title := ''Coffee'', amount := round64 (2 / 10), category := Meals \<rparr>"

definition snack :: Expense where
  "snack = taxiDraft\<lparr> title := ''Snack'', amount := round64 (3 / 10), category := Meals \<rparr>"

definition invoice :: Expense where
  "invoice = taxiDraft\<lparr> title := ''Invoice'', amount := Num 9007199254740992,
     category := Equipment \<rparr>"

definition stamp :: Expense where
  "stamp = taxiDraft\<lparr> title := ''Stamp'', amount := Num 1, category := Office \<rparr>"

definition quarters :: "Expense \<Rightarrow> nat" where
  "quarters e = (case amount e of Num x \<Rightarrow> nat \<lfloor>4 * x\<rfloor> | _ \<Rightarrow> 0)"

section \<open>Basic facts about the operations\<close>

lemma findIndex_SomeD:
  "findIndex P xs = Some k \<Longrightarrow> k < length xs \<and> P (xs ! k)"
  by (induction xs arbitrary: k) (auto split: if_splits)

lemma findIndex_None_iff:
  "findIndex P xs = None \<longleftrightarrow> (\<forall>x \<in> set xs. \<not> P x)"
  by (induction xs) auto

text \<open>JSON changes the amount only, and changes nothing the second time.\<close>

lemma jsonAmount_idem [simp]:
  "jsonAmount (jsonAmount a) = jsonAmount a"
  by (cases a) simp_all

lemma jsonAmount_gt0:
  "gt0 (jsonAmount a) \<longleftrightarrow> (\<exists>x. a = Num x \<and> 0 < x)"
  by (cases a) simp_all

lemma jsonExpense_idem [simp]:
  "jsonExpense (jsonExpense e) = jsonExpense e"
  by (simp add: jsonExpense_def)

lemma jsonExpense_fields [simp]:
  "amount (jsonExpense e) = jsonAmount (amount e)"
  "title (jsonExpense e) = title e"
  "date (jsonExpense e) = date e"
  "category (jsonExpense e) = category e"
  "description (jsonExpense e) = description e"
  "status (jsonExpense e) = status e"
  "receiptUrl (jsonExpense e) = receiptUrl e"
  "reviewedBy (jsonExpense e) = reviewedBy e"
  "reviewedByName (jsonExpense e) = reviewedByName e"
  "reviewedAt (jsonExpense e) = reviewedAt e"
  "comments (jsonExpense e) = comments e"
  "eid (jsonExpense e) = eid e"
  "submittedBy (jsonExpense e) = submittedBy e"
  "submittedByName (jsonExpense e) = submittedByName e"
  "submittedAt (jsonExpense e) = submittedAt e"
  by (simp_all add: jsonExpense_def)

lemma jsonExpense_finite:
  "amount e = Num x \<Longrightarrow> jsonExpense e = e"
  by (simp add: jsonExpense_def)

lemma jsonExpense_review [simp]:
  "jsonExpense (e\<lparr> status := s, reviewedBy := rb, reviewedByName := rn, reviewedAt := ra,
                    comments := c \<rparr>)
   = (jsonExpense e)\<lparr> status := s, reviewedBy := rb, reviewedByName := rn, reviewedAt := ra,
                      comments := c \<rparr>"
  "jsonExpense (e\<lparr> status := s \<rparr>) = (jsonExpense e)\<lparr> status := s \<rparr>"
  by (simp_all add: jsonExpense_def)

lemma eid_jsonExpense [simp]:
  "(\<lambda>e. P (eid (jsonExpense e))) = (\<lambda>e. P (eid e))"
  by simp

lemma allExpenses_storage [simp]:
  "allExpenses (st\<lparr> storage := Some (JSON_stringify xs) \<rparr>) = map jsonExpense xs"
  by (simp add: allExpenses_def JSON_stringify_def JSON_parse_def)

lemma allExpenses_other [simp]:
  "allExpenses (st\<lparr> user := v \<rparr>) = allExpenses st"
  "allExpenses (st\<lparr> expenses := xs \<rparr>) = allExpenses st"
  "allExpenses (st\<lparr> loading := b \<rparr>) = allExpenses st"
  "allExpenses (st\<lparr> error := m \<rparr>) = allExpenses st"
  by (simp_all add: allExpenses_def)

lemma allExpenses_json [simp]:
  "map jsonExpense (allExpenses st) = allExpenses st"
  by (simp add: allExpenses_def JSON_parse_def split: option.splits)

lemma allExpenses_nth_json:
  "k < length (allExpenses st) \<Longrightarrow> jsonExpense (allExpenses st ! k) = allExpenses st ! k"
  using nth_map [of k "allExpenses st" jsonExpense] by simp

lemma allExpenses_update_json:
  "k < length (allExpenses st) \<Longrightarrow>
     map jsonExpense ((allExpenses st)[k := e]) = (allExpenses st)[k := jsonExpense e]"
  by (simp add: map_update)

lemma allExpenses_member_json:
  "e \<in> set (allExpenses st) \<Longrightarrow> jsonExpense e = e"
  by (auto simp add: allExpenses_def JSON_parse_def split: option.splits)

lemma allExpenses_filter_json:
  "map jsonExpense (filter P (allExpenses st)) = filter P (allExpenses st)"
  by (rule map_idI) (auto simp add: allExpenses_member_json)

lemma loadExpenses_keeps [simp]:
  "storage (loadExpenses st) = storage st"
  "user (loadExpenses st) = user st"
  "error (loadExpenses st) = error st"
  "allExpenses (loadExpenses st) = allExpenses st"
  by (simp_all add: loadExpenses_def allExpenses_def Let_def)

lemma updateExpense_found:
  assumes "findIndex (\<lambda>e. eid e = i) (allExpenses st) = Some k"
  shows "updateExpense i p st =
           (Inr (spread (allExpenses st ! k) p),
            loadExpenses (st\<lparr> storage :=
              Some (JSON_stringify ((allExpenses st)[k := spread (allExpenses st ! k) p])) \<rparr>))"
  using assms by (simp add: updateExpense_def Let_def)

lemma updateExpense_stored:
  assumes "findIndex (\<lambda>e. eid e = i) (allExpenses st) = Some k"
  shows "allExpenses (snd (updateExpense i p st))
           = (allExpenses st)[k := jsonExpense (spread (allExpenses st ! k) p)]"
  using findIndex_SomeD [OF assms]
  by (simp add: updateExpense_found [OF assms] allExpenses_update_json)

lemma updateExpense_missing:
  assumes "findIndex (\<lambda>e. eid e = i) (allExpenses st) = None"
  shows "updateExpense i p st =
           (Inl ExpenseNotFound, st\<lparr> loading := False, error := Some ''Failed to update expense'' \<rparr>)"
  using assms by (simp add: updateExpense_def Let_def)

lemma spread_status_only:
  "spread e (noFields\<lparr> p_status := Some s \<rparr>) = e\<lparr> status := s \<rparr>"
  by (simp add: spread_def noFields_def)

lemma spread_review:
  "spread e (noFields\<lparr> p_status := Some s, p_reviewedBy := Some rb, p_reviewedByName := Some rn,
                      p_reviewedAt := Some ra, p_comments := Some c \<rparr>)
   = e\<lparr> status := s, reviewedBy := rb, reviewedByName := rn, reviewedAt := ra, comments := c \<rparr>"
  by (simp add: spread_def noFields_def)

lemma createExpense_stored:
  assumes "user st = Some u"
  shows "allExpenses (snd (createExpense nowId nowIso d st))
     = allExpenses st @
       [\<lparr> title = title d, amount = jsonAmount (amount d), date = date d,
          category = category d, description = description d, status = Draft,
          receiptUrl = receiptUrl d, reviewedBy = reviewedBy d,
          reviewedByName = reviewedByName d, reviewedAt = reviewedAt d,
          comments = comments d, eid = nowId, submittedBy = uid u,
          submittedByName = name u, submittedAt = nowIso \<rparr>]"
  using assms by (simp add: createExpense_def Let_def jsonExpense_def)

lemma createExpense_signed_in:
  assumes "user st = Some u"
  shows "fst (createExpense nowId nowIso d st)
     = Inr \<lparr> title = title d, amount = amount d, date = date d, category = category d,
           description = description d, status = Draft, receiptUrl = receiptUrl d,
           reviewedBy = reviewedBy d, reviewedByName = reviewedByName d,
           reviewedAt = reviewedAt d, comments = comments d, eid = nowId,
           submittedBy = uid u, submittedByName = name u, submittedAt = nowIso \<rparr>"
  using assms by (simp add: createExpense_def Let_def)

lemma approveExpense_found:
  assumes "user st = Some u" and "findIndex (\<lambda>e. eid e = i) (allExpenses st) = Some k"
  shows "approveExpense nowIso i c st =
     (Inr ((allExpenses st ! k)\<lparr> status := Approved, reviewedBy := Some (uid u),
              reviewedByName := Some (name u), reviewedAt := Some nowIso, comments := c \<rparr>),
      loadExpenses (st\<lparr> storage := Some (JSON_stringify ((allExpenses st)[k :=
           (allExpenses st ! k)\<lparr> status := Approved, reviewedBy := Some (uid u),
              reviewedByName := Some (name u), reviewedAt := Some nowIso, comments := c \<rparr>])) \<rparr>))"
  using assms by (simp add: approveExpense_def updateExpense_found spread_review)

lemma rejectExpense_found:
  assumes "user st = Some u" and "findIndex (\<lambda>e. eid e = i) (allExpenses st) = Some k"
  shows "rejectExpense nowIso i c st =
     (Inr ((allExpenses st ! k)\<lparr> status := Rejected, reviewedBy := Some (uid u),
              reviewedByName := Some (name u), reviewedAt := Some nowIso, comments := Some c \<rparr>),
      loadExpenses (st\<lparr> storage := Some (JSON_stringify ((allExpenses st)[k :=
           (allExpenses st ! k)\<lparr> status := Rejected, reviewedBy := Some (uid u),
              reviewedByName := Some (name u), reviewedAt := Some nowIso, comments := Some c \<rparr>])) \<rparr>))"
  using assms by (simp add: rejectExpense_def updateExpense_found spread_review)

lemma approveExpense_stored:
  assumes "user st = Some u" and "findIndex (\<lambda>e. eid e = i) (allExpenses st) = Some k"
  shows "allExpenses (snd (approveExpense nowIso i c st))
     = (allExpenses st)[k := (allExpenses st ! k)\<lparr> status := Approved,
          reviewedBy := Some (uid u), reviewedByName := Some (name u),
          reviewedAt := Some nowIso, comments := c \<rparr>]"
  using findIndex_SomeD [OF assms(2)]
  by (simp add: approveExpense_found [OF assms] allExpenses_update_json allExpenses_nth_json)

lemma rejectExpense_stored:
  assumes "user st = Some u" and "findIndex (\<lambda>e. eid e = i) (allExpenses st) = Some k"
  shows "allExpenses (snd (rejectExpense nowIso i c st))
     = (allExpenses st)[k := (allExpenses st ! k)\<lparr> status := Rejected,
          reviewedBy := Some (uid u), reviewedByName := Some (name u),
          reviewedAt := Some nowIso, comments := Some c \<rparr>]"
  using findIndex_SomeD [OF assms(2)]
  by (simp add: rejectExpense_found [OF assms] allExpenses_update_json allExpenses_nth_json)

lemma approveExpense_value:
  assumes "user st = Some u" and "findIndex (\<lambda>e. eid e = i) (allExpenses st) = Some k"
  shows "fst (approveExpense nowIso i c st)
     = Inr ((allExpenses st ! k)\<lparr> status := Approved, reviewedBy := Some (uid u),
              reviewedByName := Some (name u), reviewedAt := Some nowIso, comments := c \<rparr>)"
  by (simp add: approveExpense_found [OF assms])

lemma rejectExpense_value:
  assumes "user st = Some u" and "findIndex (\<lambda>e. eid e = i) (allExpenses st) = Some k"
  shows "fst (rejectExpense nowIso i c st)
     = Inr ((allExpenses st ! k)\<lparr> status := Rejected, reviewedBy := Some (uid u),
              reviewedByName := Some (name u), reviewedAt := Some nowIso, comments := Some c \<rparr>)"
  by (simp add: rejectExpense_found [OF assms])

lemma submitExpense_value:
  assumes "findIndex (\<lambda>e. eid e = i) (allExpenses st) = Some k"
  shows "fst (submitExpense i st) = Inr ((allExpenses st ! k)\<lparr> status := Submitted \<rparr>)"
  by (simp add: submitExpense_def updateExpense_found [OF assms] spread_status_only)

lemma submitExpense_stored:
  assumes "findIndex (\<lambda>e. eid e = i) (allExpenses st) = Some k"
  shows "allExpenses (snd (submitExpense i st))
     = (allExpenses st)[k := (allExpenses st ! k)\<lparr> status := Submitted \<rparr>]"
  using findIndex_SomeD [OF assms]
  by (simp add: submitExpense_def updateExpense_stored [OF assms] spread_status_only
        allExpenses_nth_json)

lemma updateExpense_value:
  assumes "findIndex (\<lambda>e. eid e = i) (allExpenses st) = Some k"
  shows "fst (updateExpense i p st) = Inr (spread (allExpenses st ! k) p)"
  by (simp add: updateExpense_found [OF assms])

lemma deleteExpense_result:
  "deleteExpense i st =
     (Inr (), loadExpenses (st\<lparr> storage :=
        Some (JSON_stringify (filter (\<lambda>e. eid e \<noteq> i) (allExpenses st))) \<rparr>))"
  by (simp add: deleteExpense_def Let_def)

lemma deleteExpense_value:
  "fst (deleteExpense i st) = Inr ()"
  by (simp add: deleteExpense_result)

lemma deleteExpense_stored:
  "allExpenses (snd (deleteExpense i st)) = filter (\<lambda>e. eid e \<noteq> i) (allExpenses st)"
  by (simp add: deleteExpense_result allExpenses_filter_json)

lemma find_loadExpenses_None:
  assumes "\<forall>e \<in> set (allExpenses st). eid e \<noteq> i"
  shows "getExpenseById (loadExpenses st) i = None"
  using assms
  by (auto simp add: getExpenseById_def loadExpenses_def Let_def find_None_iff split: option.splits)

text \<open>The four predicates of the detail page, spelled out.\<close>

lemma canReview_iff:
  "canReview st idp \<longleftrightarrow>
     (\<exists>u e. user st = Some u \<and> expense st idp = Some e
            \<and> (role u = Manager \<or> role u = Admin) \<and> status e = Submitted)"
  by (auto simp add: canReview_def checkRole_def split: option.splits)

lemma canEdit_iff:
  "canEdit st idp \<longleftrightarrow>
     (\<exists>u e. user st = Some u \<and> expense st idp = Some e
            \<and> submittedBy e = uid u \<and> (status e = Draft \<or> status e = Rejected))"
  by (auto simp add: canEdit_def split: option.splits)

lemma canDelete_iff:
  "canDelete st idp \<longleftrightarrow>
     (\<exists>u e. user st = Some u \<and> expense st idp = Some e
            \<and> submittedBy e = uid u \<and> status e = Draft)"
  by (auto simp add: canDelete_def split: option.splits)

lemma canSubmit_iff:
  "canSubmit st idp \<longleftrightarrow>
     (\<exists>u e. user st = Some u \<and> expense st idp = Some e
            \<and> submittedBy e = uid u \<and> status e = Draft)"
  by (auto simp add: canSubmit_def split: option.splits)

subsection \<open>The detail page's reject handler\<close>

lemma all_dropWhile_iff:
  "(\<forall>x \<in> set (dropWhile P xs). P x) \<longleftrightarrow> (\<forall>x \<in> set xs. P x)"
proof
  assume a: "\<forall>x \<in> set (dropWhile P xs). P x"
  have "dropWhile P xs = []"
  proof (rule ccontr)
    assume n: "dropWhile P xs \<noteq> []"
    then have "\<not> P (hd (dropWhile P xs))" by (rule hd_dropWhile)
    moreover from n have "hd (dropWhile P xs) \<in> set (dropWhile P xs)" by simp
    ultimately show False using a by blast
  qed
  then show "\<forall>x \<in> set xs. P x" by (simp add: dropWhile_eq_Nil_conv)
next
  assume "\<forall>x \<in> set xs. P x"
  then show "\<forall>x \<in> set (dropWhile P xs). P x" by (blast dest: set_dropWhileD)
qed

lemma trim_empty_iff:
  "trim s = [] \<longleftrightarrow> (\<forall>c \<in> set s. isWhiteSpace c)"
  by (simp add: trim_def dropWhile_eq_Nil_conv all_dropWhile_iff)

lemma handleReject_blank:
  assumes "expense st idp \<noteq> None" and "trim c = []"
  shows "handleReject nowIso idp c st = ([ToastError ''Please provide a reason for rejection''], st)"
  using assms by (auto simp add: handleReject_def expense_def split: option.splits)

lemma handleReject_calls:
  assumes "expense st (Some i) \<noteq> None" and "trim c \<noteq> []"
  shows "snd (handleReject nowIso (Some i) c st) = snd (rejectExpense nowIso i c st)"
  using assms
  by (auto simp add: handleReject_def expense_def split: option.splits if_splits sum.splits prod.splits)

lemma blank_examples:
  "\<forall>x \<in> set ''''. isWhiteSpace x"
  "\<forall>x \<in> set ''   ''. isWhiteSpace x"
  "\<not> (\<forall>x \<in> set ''Use per-diem instead''. isWhiteSpace x)"
  by (simp_all add: isWhiteSpace_def)

subsection \<open>The form and the amount\<close>

lemma handleSubmit_invalid:
  "\<not> validateForm toNumber f \<Longrightarrow>
     handleSubmit toNumber parseFloat nowId nowIso idp f submitAsDraft st = ([], st)"
  by (simp add: handleSubmit_def)

lemma validateForm_amount:
  "validateForm toNumber f \<longleftrightarrow>
     trim (f_title f) \<noteq> [] \<and> f_amount f \<noteq> [] \<and> gt0 (toNumber (f_amount f))
     \<and> f_date f \<noteq> [] \<and> trim (f_description f) \<noteq> []"
  by (cases "toNumber (f_amount f)") (auto simp add: validateForm_def formErrors_def)

lemma spread_edit:
  "spread e (expenseDataEdit parseFloat f)
     = e\<lparr> title := f_title f, amount := parseFloat (f_amount f), date := f_date f,
          category := f_category f, description := f_description f, status := Draft,
          receiptUrl := Some (uploadedReceiptUrl f) \<rparr>"
  by (simp add: spread_def expenseDataEdit_def noFields_def)

lemma jsonExpense_edit:
  "jsonExpense (e\<lparr> title := t, amount := a, date := d, category := c, description := x,
                    status := s, receiptUrl := r \<rparr>)
   = e\<lparr> title := t, amount := jsonAmount a, date := d, category := c, description := x,
        status := s, receiptUrl := r \<rparr>"
  by (cases e) (simp add: jsonExpense_def)

lemma handleSubmit_edit_as_draft:
  assumes "validateForm toNumber f" and "i \<noteq> []" and "getExpenseById st i \<noteq> None"
    and "findIndex (\<lambda>e. eid e = i) (allExpenses st) = Some k"
  shows "handleSubmit toNumber parseFloat nowId nowIso (Some i) f True st
     = ([ToastSuccess ''Expense updated successfully''],
        snd (updateExpense i (expenseDataEdit parseFloat f) st))"
  using assms
  by (auto simp add: handleSubmit_def editId_def submitSaved_def updateExpense_found
        split: option.splits)

lemma amount_spread:
  "amount (spread e p) = override (amount e) (p_amount p)"
  by (simp add: spread_def)

lemma createExpense_keeps_positive:
  assumes "\<forall>e \<in> set (allExpenses st). gt0 (amount e)" and "user st = Some u"
    and "amount d = Num x" and "0 < x"
  shows "\<forall>e \<in> set (allExpenses (snd (createExpense nowId nowIso d st))). gt0 (amount e)"
  using assms by (simp add: createExpense_stored)

lemma updateExpense_keeps_positive:
  assumes all: "\<forall>e \<in> set (allExpenses st). gt0 (amount e)"
    and p: "p_amount p = None \<or> (\<exists>x. p_amount p = Some (Num x) \<and> 0 < x)"
  shows "\<forall>e \<in> set (allExpenses (snd (updateExpense i p st))). gt0 (amount e)"
proof (cases "findIndex (\<lambda>e. eid e = i) (allExpenses st)")
  case None
  then show ?thesis using all
    by (simp add: updateExpense_missing allExpenses_def)
next
  case (Some k)
  from findIndex_SomeD [OF Some] have k: "k < length (allExpenses st)" by simp
  with all have old: "gt0 (amount (allExpenses st ! k))" by simp
  have same: "jsonAmount (amount (allExpenses st ! k)) = amount (allExpenses st ! k)"
    using allExpenses_nth_json [OF k] jsonExpense_fields(1) [of "allExpenses st ! k"] by simp
  have new: "gt0 (amount (jsonExpense (spread (allExpenses st ! k) p)))"
    using p old same by (auto simp add: amount_spread)
  show ?thesis
  proof
    fix e assume "e \<in> set (allExpenses (snd (updateExpense i p st)))"
    then have "e \<in> insert (jsonExpense (spread (allExpenses st ! k) p)) (set (allExpenses st))"
      using set_update_subset_insert
        [of "allExpenses st" k "jsonExpense (spread (allExpenses st ! k) p)"]
      by (auto simp add: updateExpense_stored [OF Some])
    then show "gt0 (amount e)" using new all by auto
  qed
qed

subsection \<open>The seeded application\<close>

lemma seed_json:
  "map jsonExpense INITIAL_EXPENSES = INITIAL_EXPENSES"
  "jsonExpense taxiDraft = taxiDraft"
  "jsonExpense expense1 = expense1"
  "jsonExpense expense2 = expense2"
  "jsonExpense expense3 = expense3"
  by (simp_all add: INITIAL_EXPENSES_def jsonExpense_finite expense1_def expense2_def
        expense3_def taxiDraft_def)

lemma started_simps [simp]:
  "allExpenses (started u) = INITIAL_EXPENSES"
  "user (started u) = u"
  by (simp_all add: started_def initialize_def allExpenses_def JSON_parse_def
        JSON_stringify_def seed_json)

lemma started_expenses:
  "expenses (started (Some johnEmployee)) = INITIAL_EXPENSES"
  "expenses (started (Some sarahManager)) = INITIAL_EXPENSES"
  "expenses (started (Some emilyJohnson)) = []"
  by (simp_all add: started_def initialize_def loadExpenses_def allExpenses_def Let_def
        JSON_parse_def JSON_stringify_def jsonExpense_def
        INITIAL_EXPENSES_def expense1_def expense2_def expense3_def
        johnEmployee_def sarahManager_def emilyJohnson_def)

lemma seed_index:
  "findIndex (\<lambda>e. eid e = ''1'') INITIAL_EXPENSES = Some 0"
  "findIndex (\<lambda>e. eid e = ''2'') INITIAL_EXPENSES = Some 1"
  "findIndex (\<lambda>e. eid e = ''3'') INITIAL_EXPENSES = Some 2"
  by (simp_all add: INITIAL_EXPENSES_def expense1_def expense2_def expense3_def)

lemma seed_nth:
  "INITIAL_EXPENSES ! 0 = expense1"
  "INITIAL_EXPENSES ! Suc 0 = expense2"
  "INITIAL_EXPENSES ! 2 = expense3"
  by (simp_all add: INITIAL_EXPENSES_def)

lemma seed_find:
  "find (\<lambda>e. eid e = ''1'') INITIAL_EXPENSES = Some expense1"
  "find (\<lambda>e. eid e = ''2'') INITIAL_EXPENSES = Some expense2"
  "find (\<lambda>e. eid e = ''3'') INITIAL_EXPENSES = Some expense3"
  by (simp_all add: INITIAL_EXPENSES_def expense1_def expense2_def expense3_def)

lemma seed_status:
  "map status INITIAL_EXPENSES = [Approved, Submitted, Rejected]"
  by (simp add: INITIAL_EXPENSES_def expense1_def expense2_def expense3_def)

lemma withDraft_simps [simp]:
  "allExpenses (withDraft u) = INITIAL_EXPENSES @ [taxiDraft]"
  "user (withDraft u) = u"
proof -
  have j: "user (started (Some johnEmployee)) = Some johnEmployee" by simp
  have "snd (createExpense ''1698912000000'' ''2023-11-02T08:00:00.000Z'' taxiData
               (started (Some johnEmployee)))
        = loadExpenses ((started (Some johnEmployee))
            \<lparr> storage := Some (JSON_stringify (INITIAL_EXPENSES @ [taxiDraft])) \<rparr>)"
    by (simp add: createExpense_def j Let_def) (simp add: taxiDraft_def taxiData_def johnEmployee_def)
  then show "allExpenses (withDraft u) = INITIAL_EXPENSES @ [taxiDraft]" "user (withDraft u) = u"
    by (simp_all add: withDraft_def userChanged_def seed_json split: option.splits)
qed

lemma withDraft_expenses:
  "expenses (withDraft (Some johnEmployee)) = INITIAL_EXPENSES @ [taxiDraft]"
  "expenses (withDraft (Some sarahManager)) = INITIAL_EXPENSES @ [taxiDraft]"
  "expenses (withDraft (Some emilyJohnson)) = []"
proof -
  have *: "expenses (withDraft (Some v)) = expenses (loadExpenses (withDraft (Some v)))" for v
    by (simp add: withDraft_def userChanged_def loadExpenses_def Let_def allExpenses_def)
  show "expenses (withDraft (Some johnEmployee)) = INITIAL_EXPENSES @ [taxiDraft]"
    by (subst *) (simp add: loadExpenses_def Let_def INITIAL_EXPENSES_def expense1_def expense2_def
        expense3_def taxiDraft_def johnEmployee_def)
  show "expenses (withDraft (Some sarahManager)) = INITIAL_EXPENSES @ [taxiDraft]"
    by (subst *) (simp add: loadExpenses_def Let_def sarahManager_def)
  show "expenses (withDraft (Some emilyJohnson)) = []"
    by (subst *) (simp add: loadExpenses_def Let_def INITIAL_EXPENSES_def expense1_def expense2_def
        expense3_def taxiDraft_def emilyJohnson_def)
qed

lemma draft_find:
  "find (\<lambda>e. eid e = ''1698912000000'') (INITIAL_EXPENSES @ [taxiDraft]) = Some taxiDraft"
  by (simp add: INITIAL_EXPENSES_def expense1_def expense2_def expense3_def taxiDraft_def)

lemma draft_index:
  "findIndex (\<lambda>e. eid e = ''1698912000000'') (INITIAL_EXPENSES @ [taxiDraft]) = Some 3"
  by (simp add: INITIAL_EXPENSES_def expense1_def expense2_def expense3_def taxiDraft_def)

lemma draft_filter:
  "filter (\<lambda>e. eid e \<noteq> ''1698912000000'') (INITIAL_EXPENSES @ [taxiDraft]) = INITIAL_EXPENSES"
  by (simp add: INITIAL_EXPENSES_def expense1_def expense2_def expense3_def taxiDraft_def)

lemma draft_shown:
  "expense (withDraft (Some johnEmployee)) (Some ''1698912000000'') = Some taxiDraft"
  by (simp add: expense_def getExpenseById_def withDraft_expenses draft_find)

lemma seed_amounts:
  "list_all (\<lambda>e. gt0 (amount e)) INITIAL_EXPENSES"
  by (simp add: INITIAL_EXPENSES_def expense1_def expense2_def expense3_def)

lemma form_examples:
  "validateForm readAmount laptopForm"
  "validateForm readAmount taxiForm"
  "le0 (readAmount (f_amount (taxiForm\<lparr> f_amount := ''0'' \<rparr>)))"
  by (simp_all add: validateForm_amount trim_empty_iff isWhiteSpace_def readAmount_def
        laptopForm_def taxiForm_def)

section \<open>Facts about numbers and the report page\<close>

subsection \<open>Rounding\<close>

declare expoHigh.simps [simp del] expoLow.simps [simp del]

lemma expoHigh_bounds:
  "1 \<le> a \<Longrightarrow> 2 powi (expoHigh a) \<le> a \<and> a < 2 powi (expoHigh a + 1)"
proof (induction a rule: expoHigh.induct)
  case (1 a)
  show ?case
  proof (cases "2 \<le> a")
    case True
    then have "1 \<le> a / 2" by simp
    from "1.IH" [OF True this]
    have "2 powi (expoHigh (a / 2)) \<le> a / 2" "a / 2 < 2 powi (expoHigh (a / 2) + 1)" by simp_all
    then have "2 powi (expoHigh (a / 2)) * 2 \<le> a" "a < 2 powi (expoHigh (a / 2) + 1) * 2"
      by simp_all
    then show ?thesis using True
      by (subst (1 2) expoHigh.simps) (simp add: power_int_add)
  next
    case False
    then show ?thesis using "1.prems" by (subst (1 2) expoHigh.simps) simp
  qed
qed

lemma expoLow_bounds:
  "0 < a \<Longrightarrow> a < 1 \<Longrightarrow> 2 powi (expoLow a) \<le> a \<and> a < 2 powi (expoLow a + 1)"
proof (induction a rule: expoLow.induct)
  case (1 a)
  have a: "0 < a \<and> a < 1" using "1.prems" by simp
  have e: "expoLow a = expoLow (2 * a) - 1" using a by (subst expoLow.simps) simp
  show ?case
  proof (cases "2 * a < 1")
    case True
    from "1.IH" [OF a _ True] a
    have "2 powi (expoLow (2 * a)) \<le> 2 * a" "2 * a < 2 powi (expoLow (2 * a) + 1)" by simp_all
    then show ?thesis unfolding e by (simp add: power_int_diff power_int_add)
  next
    case False
    then have "expoLow (2 * a) = 0" by (subst expoLow.simps) simp
    then show ?thesis unfolding e using False a by (simp add: power_int_minus)
  qed
qed

lemma expo_bounds:
  "0 < a \<Longrightarrow> 2 powi (expo a) \<le> a \<and> a < 2 powi (expo a + 1)"
  by (cases "1 \<le> a") (simp_all add: expo_def expoHigh_bounds expoLow_bounds)

lemma pow2_less_imp:
  fixes a :: real
  assumes "2 powi e \<le> a" and "a < 2 powi m"
  shows "e < m"
proof (rule ccontr)
  assume "\<not> e < m"
  then have "(2::real) powi m \<le> 2 powi e" by (intro power_int_increasing) simp_all
  with assms show False by simp
qed

lemma expo_unique:
  assumes "2 powi e \<le> a" and "a < 2 powi (e + 1)"
  shows "expo a = e"
proof -
  have "0 < (2::real) powi e" by simp
  with assms have a: "0 < a" by linarith
  from expo_bounds [OF a] have b: "2 powi (expo a) \<le> a" "a < 2 powi (expo a + 1)" by simp_all
  from pow2_less_imp [OF b(1) assms(2)] pow2_less_imp [OF assms(1) b(2)]
  show ?thesis by simp
qed

lemma roundHalfEven_of_int [simp]:
  "roundHalfEven (of_int n) = n"
  by (simp add: roundHalfEven_def)

lemma roundHalfEven_zero [simp]:
  "roundHalfEven 0 = 0"
  by (simp add: roundHalfEven_def)

lemma roundHalfEven_near:
  assumes "\<bar>q - of_int n\<bar> < 1 / 2"
  shows "roundHalfEven q = n"
proof -
  from assms have lo: "of_int n - 1 / 2 < q" and hi: "q < of_int n + 1 / 2" by linarith+
  show ?thesis
  proof (cases "of_int n \<le> q")
    case True
    then have "\<lfloor>q\<rfloor> = n" using hi by (simp add: floor_eq_iff)
    then show ?thesis using hi by (simp add: roundHalfEven_def Let_def)
  next
    case False
    then have "\<lfloor>q\<rfloor> = n - 1" using lo by (simp add: floor_eq_iff)
    then show ?thesis using lo False by (simp add: roundHalfEven_def Let_def)
  qed
qed

lemma roundHalfEven_tie:
  assumes "q = of_int n + 1 / 2"
  shows "roundHalfEven q = (if even n then n else n + 1)"
proof -
  have "\<lfloor>q\<rfloor> = n" unfolding assms by (simp add: floor_eq_iff)
  then show ?thesis unfolding assms by (simp add: roundHalfEven_def Let_def)
qed


text \<open>
  A whole multiple of a power of two with fewer than 54 bits is a binary64 number, and
  the sum of two such multiples of the same power is exact when it is one.
\<close>

lemma round64_exact:
  fixes m :: nat
  assumes x: "x = real m * 2 powi j" and m: "m < 2 ^ 53" and j: "- 1074 \<le> j" "j \<le> 970"
  shows "round64 x = Num x"
proof (cases "m = 0")
  case True
  then have "x = 0" using x by simp
  then show ?thesis by (simp add: round64_def Let_def)
next
  case False
  have p: "0 < (2::real) powi j" by simp
  have xpos: "0 < x" unfolding x using False p by simp
  define e where "e = max (expo x) (- 1022)"
  have "real m < 2 ^ 53" using m by (metis of_nat_less_iff of_nat_numeral of_nat_power)
  then have "x < 2 ^ 53 * 2 powi j" unfolding x using p by (simp add: mult_strict_right_mono)
  also have "\<dots> = 2 powi (53 + j)" by (simp add: power_int_add)
  finally have xlt: "x < 2 powi (53 + j)" .
  from expo_bounds [OF xpos] have "2 powi (expo x) \<le> x" by simp
  from pow2_less_imp [OF this xlt] have "expo x \<le> 52 + j" by simp
  then have e: "e \<le> 52 + j" unfolding e_def using j by simp
  define d where "d = nat (j - e + 52)"
  have d: "j - (e - 52) = int d" unfolding d_def using e by simp
  have "x / 2 powi (e - 52) = real m * 2 powi (j - (e - 52))"
    unfolding x by (simp add: power_int_diff)
  also have "\<dots> = of_int (int m * 2 ^ d)" unfolding d by simp
  finally have q: "x / 2 powi (e - 52) = of_int (int m * 2 ^ d)" .
  have r: "of_int (roundHalfEven (x / 2 powi (e - 52))) * 2 powi (e - 52) = x"
    unfolding q roundHalfEven_of_int unfolding q [symmetric] by simp
  have "53 + j \<le> 1024" using j by simp
  then have "(2::real) powi (53 + j) \<le> 2 powi 1024" by (intro power_int_increasing) simp_all
  with xlt have big: "\<not> 2 powi 1024 \<le> x" by simp
  show ?thesis
    using xpos r big by (simp add: round64_def Let_def e_def [symmetric])
qed

lemma plusNumber_exact:
  fixes a b :: nat
  assumes "a + b < 2 ^ 53" and "- 1074 \<le> k" "k \<le> 970"
  shows "plusNumber (Num (real a * 2 powi k)) (Num (real b * 2 powi k))
           = Num (real (a + b) * 2 powi k)"
proof -
  have "real a * 2 powi k + real b * 2 powi k = real (a + b) * 2 powi k"
    by (simp add: algebra_simps)
  with round64_exact [OF this [symmetric, THEN sym] assms] show ?thesis by simp
qed

text \<open>
  The rounding of a real between \<open>2 ^ e\<close> and \<open>2 ^ (e + 1)\<close>, from the integer \<open>n\<close>
  nearest to its quotient by the step, or from the integer below when the quotient lies
  half-way.
\<close>

lemma round64_nearest:
  assumes e: "2 powi e \<le> x" "x < 2 powi (e + 1)" and r: "- 1022 \<le> e" "e \<le> 1022"
    and n: "\<bar>x / 2 powi (e - 52) - of_int n\<bar> < 1 / 2"
    and v: "of_int n * 2 powi (e - 52) < (2::real) powi 1024"
  shows "round64 x = Num (of_int n * 2 powi (e - 52))"
proof -
  have "0 < (2::real) powi e" by simp
  with e have xpos: "0 < x" by linarith
  have ex: "expo x = e" using e by (rule expo_unique)
  have m: "max e (- 1022) = e" using r by simp
  show ?thesis
    using xpos v by (simp add: round64_def Let_def ex m roundHalfEven_near [OF n])
qed

lemma round64_tie:
  assumes e: "2 powi e \<le> x" "x < 2 powi (e + 1)" and r: "- 1022 \<le> e" "e \<le> 1022"
    and n: "x / 2 powi (e - 52) = of_int n + 1 / 2"
    and v: "of_int (if even n then n else n + 1) * 2 powi (e - 52) < (2::real) powi 1024"
  shows "round64 x = Num (of_int (if even n then n else n + 1) * 2 powi (e - 52))"
proof -
  have "0 < (2::real) powi e" by simp
  with e have xpos: "0 < x" by linarith
  have ex: "expo x = e" using e by (rule expo_unique)
  have m: "max e (- 1022) = e" using r by simp
  show ?thesis
    using xpos v by (simp add: round64_def Let_def ex m roundHalfEven_tie [OF n])
qed

text \<open>The numbers written \<^verbatim>\<open>0.1\<close>, \<^verbatim>\<open>0.2\<close> and \<^verbatim>\<open>0.3\<close>.\<close>

lemma double_tenth: "round64 (1 / 10) = Num (3602879701896397 / 2 ^ 55)"
  using round64_nearest [of "- 4" "1 / 10" 7205759403792794] by simp

lemma double_fifth: "round64 (2 / 10) = Num (3602879701896397 / 2 ^ 54)"
  using round64_nearest [of "- 3" "2 / 10" 7205759403792794] by simp

lemma double_three_tenths: "round64 (3 / 10) = Num (5404319552844595 / 2 ^ 54)"
  using round64_nearest [of "- 2" "3 / 10" 5404319552844595] by simp

subsection \<open>The sums of the report page\<close>

lemma filteredExpenses_filter:
  "filteredExpenses notBefore beforeDayAfter filters xs
     = filter (\<lambda>e. (r_startDate filters = [] \<or> notBefore (date e) (r_startDate filters))
                  \<and> (r_endDate filters = [] \<or> beforeDayAfter (date e) (r_endDate filters))
                  \<and> (r_category filters = ''all''
                       \<or> categoryName (category e) = r_category filters)
                  \<and> (r_status filters = ''all'' \<or> statusName (status e) = r_status filters)) xs"
  by (auto simp add: filteredExpenses_def Let_def intro!: filter_cong)

lemma foldl_plus_exact:
  fixes a :: nat
  assumes k: "- 1074 \<le> k" "k \<le> 970"
  shows "a + sum_list ns < 2 ^ 53 \<Longrightarrow>
     foldl plusNumber (Num (real a * 2 powi k)) (map (\<lambda>v. Num (real v * 2 powi k)) ns)
       = Num (real (a + sum_list ns) * 2 powi k)"
proof (induction ns arbitrary: a)
  case Nil
  then show ?case by simp
next
  case (Cons v ns)
  then have small: "a + v < 2 ^ 53" and rest: "(a + v) + sum_list ns < 2 ^ 53" by simp_all
  have "foldl plusNumber (Num (real a * 2 powi k)) (map (\<lambda>v. Num (real v * 2 powi k)) (v # ns))
      = foldl plusNumber (plusNumber (Num (real a * 2 powi k)) (Num (real v * 2 powi k)))
          (map (\<lambda>v. Num (real v * 2 powi k)) ns)"
    by (simp only: list.map foldl_Cons)
  also have "\<dots> = foldl plusNumber (Num (real (a + v) * 2 powi k))
          (map (\<lambda>v. Num (real v * 2 powi k)) ns)"
    by (simp only: plusNumber_exact [OF small k])
  also have "\<dots> = Num (real ((a + v) + sum_list ns) * 2 powi k)"
    using rest by (rule Cons.IH)
  also have "(a + v) + sum_list ns = a + sum_list (v # ns)" by simp
  finally show ?case .
qed

lemma total_exact:
  fixes a :: nat and n :: "Expense \<Rightarrow> nat"
  assumes k: "- 1074 \<le> k" "k \<le> 970"
  shows "\<forall>e \<in> set xs. amount e = Num (real (n e) * 2 powi k) \<Longrightarrow>
     a + sum_list (map n xs) < 2 ^ 53 \<Longrightarrow>
     foldl (\<lambda>sum e. plusNumber sum (amount e)) (Num (real a * 2 powi k)) xs
       = Num (real (a + sum_list (map n xs)) * 2 powi k)"
proof (induction xs arbitrary: a)
  case Nil
  then show ?case by simp
next
  case (Cons e xs)
  then have small: "a + n e < 2 ^ 53" and rest: "(a + n e) + sum_list (map n xs) < 2 ^ 53"
    by simp_all
  have am: "amount e = Num (real (n e) * 2 powi k)"
    and ams: "\<forall>e \<in> set xs. amount e = Num (real (n e) * 2 powi k)"
    using Cons.prems(1) by simp_all
  have "foldl (\<lambda>sum e. plusNumber sum (amount e)) (Num (real a * 2 powi k)) (e # xs)
      = foldl (\<lambda>sum e. plusNumber sum (amount e))
          (plusNumber (Num (real a * 2 powi k)) (Num (real (n e) * 2 powi k))) xs"
    by (simp only: foldl_Cons am)
  also have "\<dots> = foldl (\<lambda>sum e. plusNumber sum (amount e))
          (Num (real (a + n e) * 2 powi k)) xs"
    by (simp only: plusNumber_exact [OF small k])
  also have "\<dots> = Num (real ((a + n e) + sum_list (map n xs)) * 2 powi k)"
    using ams rest by (rule Cons.IH)
  also have "(a + n e) + sum_list (map n xs) = a + sum_list (map n (e # xs))" by simp
  finally show ?case .
qed

lemma setKey_map:
  "setKey c (f w) (map (\<lambda>(c, v). (c, f v)) ms) = map (\<lambda>(c, v). (c, f v)) (setKey c w ms)"
  by (induction ms) auto

lemma map_of_map_snd:
  "map_of (map (\<lambda>(c, v). (c, f v)) ms) c = map_option f (map_of ms c)"
  by (induction ms) auto

lemma sum_setKey:
  fixes ms :: "('k \<times> nat) list"
  shows "sum_list (map snd (setKey c ((case map_of ms c of None \<Rightarrow> 0 | Some v \<Rightarrow> v) + m) ms))
           = sum_list (map snd ms) + m"
  by (induction ms) auto

lemma lookup_le_sum:
  fixes ms :: "('k \<times> nat) list"
  shows "(case map_of ms c of None \<Rightarrow> 0 | Some v \<Rightarrow> v) \<le> sum_list (map snd ms)"
  by (induction ms) auto

lemma orZero_exact:
  fixes ms :: "('k \<times> nat) list"
  shows "orZero (map_option (\<lambda>v. Num (real v * 2 powi k)) (map_of ms c))
           = Num (real (case map_of ms c of None \<Rightarrow> 0 | Some v \<Rightarrow> v) * 2 powi k)"
  by (cases "map_of ms c") auto

lemma byCategory_exact:
  fixes n :: "Expense \<Rightarrow> nat" and ms :: "(ExpenseCategory \<times> nat) list"
  assumes k: "- 1074 \<le> k" "k \<le> 970"
  shows "\<forall>e \<in> set xs. amount e = Num (real (n e) * 2 powi k) \<Longrightarrow>
     sum_list (map snd ms) + sum_list (map n xs) < 2 ^ 53 \<Longrightarrow>
     \<exists>ms'. foldl (\<lambda>acc e. setKey (category e)
                      (plusNumber (orZero (map_of acc (category e))) (amount e)) acc)
              (map (\<lambda>(c, v). (c, Num (real v * 2 powi k))) ms) xs
            = map (\<lambda>(c, v). (c, Num (real v * 2 powi k))) ms'
          \<and> sum_list (map snd ms') = sum_list (map snd ms) + sum_list (map n xs)"
proof (induction xs arbitrary: ms)
  case Nil
  show ?case by (rule exI [of _ ms]) simp
next
  case (Cons e xs)
  let ?old = "case map_of ms (category e) of None \<Rightarrow> 0 | Some v \<Rightarrow> v"
  let ?ms = "setKey (category e) (?old + n e) ms"
  have am: "amount e = Num (real (n e) * 2 powi k)" using Cons.prems(1) by simp
  have "?old \<le> sum_list (map snd ms)" by (rule lookup_le_sum)
  with Cons.prems(2) have small: "?old + n e < 2 ^ 53" by simp
  have step: "setKey (category e)
      (plusNumber (orZero (map_of (map (\<lambda>(c, v). (c, Num (real v * 2 powi k))) ms) (category e)))
         (amount e))
      (map (\<lambda>(c, v). (c, Num (real v * 2 powi k))) ms)
    = map (\<lambda>(c, v). (c, Num (real v * 2 powi k))) ?ms"
    unfolding map_of_map_snd orZero_exact am plusNumber_exact [OF small k]
    by (rule setKey_map)
  have sum: "sum_list (map snd ?ms) = sum_list (map snd ms) + n e" by (rule sum_setKey)
  have "sum_list (map snd ?ms) + sum_list (map n xs) < 2 ^ 53"
    unfolding sum using Cons.prems(2) by simp
  from Cons.IH [OF _ this] Cons.prems(1)
  obtain ms' where
    f: "foldl (\<lambda>acc e. setKey (category e)
                      (plusNumber (orZero (map_of acc (category e))) (amount e)) acc)
              (map (\<lambda>(c, v). (c, Num (real v * 2 powi k))) ?ms) xs
            = map (\<lambda>(c, v). (c, Num (real v * 2 powi k))) ms'"
    and s: "sum_list (map snd ms') = sum_list (map snd ?ms) + sum_list (map n xs)"
    by auto
  have "foldl (\<lambda>acc e. setKey (category e)
                      (plusNumber (orZero (map_of acc (category e))) (amount e)) acc)
              (map (\<lambda>(c, v). (c, Num (real v * 2 powi k))) ms) (e # xs)
      = foldl (\<lambda>acc e. setKey (category e)
                      (plusNumber (orZero (map_of acc (category e))) (amount e)) acc)
              (map (\<lambda>(c, v). (c, Num (real v * 2 powi k))) ?ms) xs"
    by (simp only: foldl_Cons step)
  from this f have A: "foldl (\<lambda>acc e. setKey (category e)
                      (plusNumber (orZero (map_of acc (category e))) (amount e)) acc)
              (map (\<lambda>(c, v). (c, Num (real v * 2 powi k))) ms) (e # xs)
      = map (\<lambda>(c, v). (c, Num (real v * 2 powi k))) ms'"
    by (rule trans)
  have B: "sum_list (map snd ms') = sum_list (map snd ms) + sum_list (map n (e # xs))"
    using s unfolding sum by simp
  from A B show ?case by blast
qed

lemma report_exact:
  fixes n :: "Expense \<Rightarrow> nat"
  assumes am: "\<forall>e \<in> set xs. amount e = Num (real (n e) * 2 powi k)"
    and small: "sum_list (map n xs) < 2 ^ 53" and k: "- 1074 \<le> k" "k \<le> 970"
  shows "totalAmount xs = Num (real (sum_list (map n xs)) * 2 powi k)"
    and "categoryTotalsSum xs = Num (real (sum_list (map n xs)) * 2 powi k)"
proof -
  show "totalAmount xs = Num (real (sum_list (map n xs)) * 2 powi k)"
    using total_exact [OF k am, of 0] small by (simp add: totalAmount_def)
  from byCategory_exact [OF k am, of "[]"] small
  obtain ms' where ms: "expensesByCategory xs = map (\<lambda>(c, v). (c, Num (real v * 2 powi k))) ms'"
    "sum_list (map snd ms') = sum_list (map n xs)"
    by (auto simp add: expensesByCategory_def)
  have sn: "map snd (map (\<lambda>(c, v). (c, Num (real v * 2 powi k))) ms')
      = map (\<lambda>v. Num (real v * 2 powi k)) (map snd ms')"
    by (induction ms') auto
  have z: "Num 0 = Num (real 0 * 2 powi k)" by simp
  have "0 + sum_list (map snd ms') < 2 ^ 53" using small ms(2) by simp
  from foldl_plus_exact [OF k this]
  show "categoryTotalsSum xs = Num (real (sum_list (map n xs)) * 2 powi k)"
    unfolding categoryTotalsSum_def ms(1) sn by (subst z) (simp only: ms(2) add_0)
qed

text \<open>
  The three sums for a list of three expenses, the first of one category and the other
  two of another, from the roundings of the additions made. The category totals are
  added in the order of the entries and in the reverse order.
\<close>

lemma report_three:
  assumes am: "amount a = Num x" "amount b = Num y" "amount c = Num z"
    and cat: "category a = ca" "category b = cb" "category c = cb" "ca \<noteq> cb"
    and x: "round64 x = Num x" and y: "round64 y = Num y" "y \<noteq> 0"
    and total: "round64 (x + y) = Num s" "round64 (s + z) = Num t"
    and by_category: "round64 (y + z) = Num m" "round64 m = Num m" "round64 (x + m) = Num w"
  shows "totalAmount [a, b, c] = Num t"
    and "expensesByCategory [a, b, c] = [(ca, Num x), (cb, Num m)]"
    and "categoryTotalsSum [a, b, c] = Num w"
    and "foldl plusNumber (Num 0) (rev (map snd (expensesByCategory [a, b, c]))) = Num w"
proof -
  show "totalAmount [a, b, c] = Num t"
    by (simp add: totalAmount_def am x total)
  show c: "expensesByCategory [a, b, c] = [(ca, Num x), (cb, Num m)]"
    using cat(4) y(2) by (simp add: expensesByCategory_def am cat(1-3) x y(1) by_category(1))
  show "categoryTotalsSum [a, b, c] = Num w"
    by (simp add: categoryTotalsSum_def c x by_category(3))
  have "round64 (m + x) = Num w"
    using by_category(3) by (simp only: add.commute [of m x])
  then show "foldl plusNumber (Num 0) (rev (map snd (expensesByCategory [a, b, c]))) = Num w"
    by (simp add: c by_category(2))
qed

lemma no_filters: "filteredExpenses always always noFilters xs = xs"
  by (simp add: filteredExpenses_def noFilters_def)

lemma cents_amounts:
  "amount busFare = Num (3602879701896397 / 2 ^ 55)"
  "amount coffee = Num (3602879701896397 / 2 ^ 54)"
  "amount snack = Num (5404319552844595 / 2 ^ 54)"
  unfolding busFare_def coffee_def snack_def double_tenth double_fifth double_three_tenths
  by simp_all

lemma cents_categories:
  "category busFare = Travel" "category coffee = Meals" "category snack = Meals"
  by (simp_all add: busFare_def coffee_def snack_def)

lemma cents_rounding:
  "round64 (3602879701896397 / 2 ^ 55) = Num (3602879701896397 / 2 ^ 55)"
  "round64 (3602879701896397 / 2 ^ 54) = Num (3602879701896397 / 2 ^ 54)"
  "round64 (3602879701896397 / 2 ^ 55 + 3602879701896397 / 2 ^ 54) = Num (5404319552844596 / 2 ^ 54)"
  "round64 (5404319552844596 / 2 ^ 54 + 5404319552844595 / 2 ^ 54) = Num (5404319552844596 / 2 ^ 53)"
  "round64 (3602879701896397 / 2 ^ 54 + 5404319552844595 / 2 ^ 54) = Num (1 / 2)"
  "round64 (1 / 2) = Num (1 / 2)"
  "round64 (3602879701896397 / 2 ^ 55 + 1 / 2) = Num (5404319552844595 / 2 ^ 53)"
proof -
  show "round64 (3602879701896397 / 2 ^ 55) = Num (3602879701896397 / 2 ^ 55)"
    using round64_exact [of "3602879701896397 / 2 ^ 55" 3602879701896397 "- 55"] by simp
  show "round64 (3602879701896397 / 2 ^ 54) = Num (3602879701896397 / 2 ^ 54)"
    using round64_exact [of "3602879701896397 / 2 ^ 54" 3602879701896397 "- 54"] by simp
  show "round64 (3602879701896397 / 2 ^ 55 + 3602879701896397 / 2 ^ 54)
      = Num (5404319552844596 / 2 ^ 54)"
    using round64_tie [of "- 2" "10808639105689191 / 2 ^ 55" 5404319552844595] by simp
  show "round64 (5404319552844596 / 2 ^ 54 + 5404319552844595 / 2 ^ 54)
      = Num (5404319552844596 / 2 ^ 53)"
    using round64_tie [of "- 1" "10808639105689191 / 2 ^ 54" 5404319552844595] by simp
  show "round64 (3602879701896397 / 2 ^ 54 + 5404319552844595 / 2 ^ 54) = Num (1 / 2)"
    using round64_exact [of "1 / 2" 1 "- 1"] by simp
  show "round64 (1 / 2) = Num (1 / 2)"
    using round64_exact [of "1 / 2" 1 "- 1"] by simp
  show "round64 (3602879701896397 / 2 ^ 55 + 1 / 2) = Num (5404319552844595 / 2 ^ 53)"
    using round64_nearest [of "- 1" "21617278211378381 / 2 ^ 55" 5404319552844595] by simp
qed

lemma large_amounts:
  "amount invoice = Num 9007199254740992" "amount stamp = Num 1"
  "category invoice = Equipment" "category stamp = Office"
  by (simp_all add: invoice_def stamp_def)

lemma large_rounding:
  "round64 9007199254740992 = Num 9007199254740992"
  "round64 1 = Num 1"
  "round64 (9007199254740992 + 1) = Num 9007199254740992"
  "round64 (1 + 1) = Num 2"
  "round64 2 = Num 2"
  "round64 (9007199254740992 + 2) = Num 9007199254740994"
proof -
  show "round64 9007199254740992 = Num 9007199254740992"
    using round64_exact [of 9007199254740992 1 53] by simp
  show "round64 1 = Num 1"
    using round64_exact [of 1 1 0] by simp
  show "round64 (9007199254740992 + 1) = Num 9007199254740992"
    using round64_tie [of 53 9007199254740993 4503599627370496] by simp
  show "round64 (1 + 1) = Num 2"
    using round64_exact [of 2 2 0] by simp
  show "round64 2 = Num 2"
    using round64_exact [of 2 2 0] by simp
  show "round64 (9007199254740992 + 2) = Num 9007199254740994"
    using round64_exact [of 9007199254740994 4503599627370497 1] by simp
qed

section \<open>The claims\<close>

subsection \<open>C1: approve and reject against the current status\<close>

text \<open>
  Claim C1, as the code has it. \<^verbatim>\<open>approveExpense\<close> and \<^verbatim>\<open>rejectExpense\<close> do not look at
  the current status: for a signed-in user and a stored id they succeed from every
  status, overwrite the status of the first stored expense with that id by
  \<open>Approved\<close> or \<open>Rejected\<close> and stamp the reviewer. The restriction to submitted
  expenses is carried by the detail page's predicate \<^verbatim>\<open>canReview\<close>, which holds only
  when the expense shown has status \<open>Submitted\<close>.
\<close>

theorem review_ignores_status:
  assumes "user st = Some u" and "findIndex (\<lambda>e. eid e = i) (allExpenses st) = Some k"
  shows "fst (approveExpense nowIso i c st)
           = Inr ((allExpenses st ! k)\<lparr> status := Approved, reviewedBy := Some (uid u),
                    reviewedByName := Some (name u), reviewedAt := Some nowIso, comments := c \<rparr>)
       \<and> map status (allExpenses (snd (approveExpense nowIso i c st)))
           = (map status (allExpenses st))[k := Approved]
       \<and> fst (rejectExpense nowIso i c' st)
           = Inr ((allExpenses st ! k)\<lparr> status := Rejected, reviewedBy := Some (uid u),
                    reviewedByName := Some (name u), reviewedAt := Some nowIso, comments := Some c' \<rparr>)
       \<and> map status (allExpenses (snd (rejectExpense nowIso i c' st)))
           = (map status (allExpenses st))[k := Rejected]
       \<and> (canReview st idp \<longrightarrow> (\<exists>e. expense st idp = Some e \<and> status e = Submitted))"
  by (simp add: approveExpense_value [OF assms] approveExpense_stored [OF assms] rejectExpense_value [OF assms] rejectExpense_stored [OF assms] map_update
        canReview_iff) blast

text \<open>Sarah, a manager, reviews the submitted team lunch of the seed data.\<close>

theorem review_ignores_status_witness:
  "user (started (Some sarahManager)) = Some sarahManager
   \<and> findIndex (\<lambda>e. eid e = ''2'') (allExpenses (started (Some sarahManager))) = Some 1
   \<and> canReview (started (Some sarahManager)) (Some ''2'')
   \<and> expense (started (Some sarahManager)) (Some ''2'') = Some expense2
   \<and> status expense2 = Submitted
   \<and> map status (allExpenses (snd (approveExpense ''2023-11-02T09:00:00.000Z'' ''2'' (Some ''ok'')
                                      (started (Some sarahManager)))))
       = [Approved, Approved, Rejected]
   \<and> map status (allExpenses (snd (rejectExpense ''2023-11-02T09:00:00.000Z'' ''2'' ''no''
                                      (started (Some sarahManager)))))
       = [Approved, Rejected, Rejected]"
proof -
  have u: "user (started (Some sarahManager)) = Some sarahManager" by simp
  have f: "findIndex (\<lambda>e. eid e = ''2'') (allExpenses (started (Some sarahManager))) = Some 1"
    by (simp add: seed_index)
  have x: "expense (started (Some sarahManager)) (Some ''2'') = Some expense2"
    by (simp add: expense_def getExpenseById_def started_expenses seed_find)
  have s: "status expense2 = Submitted" by (simp add: expense2_def)
  have r: "canReview (started (Some sarahManager)) (Some ''2'')"
    by (simp add: canReview_iff x s) (simp add: sarahManager_def)
  from review_ignores_status [OF u f, of "''2023-11-02T09:00:00.000Z''" "Some ''ok''" "''no''" "Some ''2''"]
  show ?thesis using u f x s r by (simp add: seed_status)
qed

text \<open>
  Against C1 as stated: Sarah approves the rejected laptop expense and rejects the
  approved business trip; both calls succeed and change the stored status.
\<close>

theorem review_any_status_counterexample:
  "status expense3 = Rejected
   \<and> fst (approveExpense ''2023-11-02T09:00:00.000Z'' ''3'' None (started (Some sarahManager)))
       = Inr (expense3\<lparr> status := Approved, reviewedBy := Some ''2'',
                reviewedByName := Some ''Sarah Manager'',
                reviewedAt := Some ''2023-11-02T09:00:00.000Z'', comments := None \<rparr>)
   \<and> map status (allExpenses (snd (approveExpense ''2023-11-02T09:00:00.000Z'' ''3'' None
                                      (started (Some sarahManager)))))
       = [Approved, Submitted, Approved]
   \<and> status expense1 = Approved
   \<and> fst (rejectExpense ''2023-11-02T09:00:00.000Z'' ''1'' ''Too late'' (started (Some sarahManager)))
       = Inr (expense1\<lparr> status := Rejected, reviewedBy := Some ''2'',
                reviewedByName := Some ''Sarah Manager'',
                reviewedAt := Some ''2023-11-02T09:00:00.000Z'', comments := Some ''Too late'' \<rparr>)
   \<and> map status (allExpenses (snd (rejectExpense ''2023-11-02T09:00:00.000Z'' ''1'' ''Too late''
                                      (started (Some sarahManager)))))
       = [Rejected, Submitted, Rejected]"
proof -
  have u: "user (started (Some sarahManager)) = Some sarahManager" by simp
  have f3: "findIndex (\<lambda>e. eid e = ''3'') (allExpenses (started (Some sarahManager))) = Some 2"
    and f1: "findIndex (\<lambda>e. eid e = ''1'') (allExpenses (started (Some sarahManager))) = Some 0"
    by (simp_all add: seed_index)
  show ?thesis
    by (simp add: approveExpense_value [OF u f3] approveExpense_stored [OF u f3] rejectExpense_value [OF u f1] rejectExpense_stored [OF u f1] seed_nth)
       (simp add: INITIAL_EXPENSES_def expense1_def expense2_def expense3_def sarahManager_def)
qed

subsection \<open>C2: who may act\<close>

text \<open>
  Claim C2, as the code has it. No expense operation checks who is acting, and none
  fails for want of entitlement: for any signed-in user \<open>u\<close>, whatever the role and
  whoever owns the expense, \<^verbatim>\<open>submitExpense\<close>, \<^verbatim>\<open>updateExpense\<close>, \<^verbatim>\<open>approveExpense\<close> and
  \<^verbatim>\<open>rejectExpense\<close> on a stored id succeed and \<^verbatim>\<open>deleteExpense\<close> removes the expense.
  Who may act is decided by the detail page's predicates: \<^verbatim>\<open>canSubmit\<close>, \<^verbatim>\<open>canEdit\<close> and
  \<^verbatim>\<open>canDelete\<close> hold only when the expense shown was submitted by \<open>u\<close>, and
  \<^verbatim>\<open>canReview\<close> only when \<open>u\<close> is a manager or an admin.
\<close>

theorem no_actor_check:
  assumes "user st = Some u" and "findIndex (\<lambda>e. eid e = i) (allExpenses st) = Some k"
  shows "fst (submitExpense i st) = Inr ((allExpenses st ! k)\<lparr> status := Submitted \<rparr>)
       \<and> fst (updateExpense i p st) = Inr (spread (allExpenses st ! k) p)
       \<and> fst (deleteExpense i st) = Inr ()
       \<and> allExpenses (snd (deleteExpense i st)) = filter (\<lambda>e. eid e \<noteq> i) (allExpenses st)
       \<and> fst (approveExpense nowIso i c st)
           = Inr ((allExpenses st ! k)\<lparr> status := Approved, reviewedBy := Some (uid u),
                    reviewedByName := Some (name u), reviewedAt := Some nowIso, comments := c \<rparr>)
       \<and> fst (rejectExpense nowIso i c' st)
           = Inr ((allExpenses st ! k)\<lparr> status := Rejected, reviewedBy := Some (uid u),
                    reviewedByName := Some (name u), reviewedAt := Some nowIso, comments := Some c' \<rparr>)
       \<and> (canSubmit st idp \<or> canEdit st idp \<or> canDelete st idp \<longrightarrow>
            (\<exists>e. expense st idp = Some e \<and> submittedBy e = uid u))
       \<and> (canReview st idp \<longrightarrow> role u = Manager \<or> role u = Admin)"
proof (intro conjI)
  show "canSubmit st idp \<or> canEdit st idp \<or> canDelete st idp \<longrightarrow>
            (\<exists>e. expense st idp = Some e \<and> submittedBy e = uid u)"
    using assms(1) by (auto simp add: canSubmit_iff canEdit_iff canDelete_iff)
  show "canReview st idp \<longrightarrow> role u = Manager \<or> role u = Admin"
    using assms(1) by (auto simp add: canReview_iff)
qed (simp_all add: submitExpense_value [OF assms(2)] updateExpense_value [OF assms(2)]
       deleteExpense_value deleteExpense_stored approveExpense_value [OF assms] approveExpense_stored [OF assms] rejectExpense_value [OF assms] rejectExpense_stored [OF assms])

text \<open>
  John may submit the draft he owns, and the call does so; Sarah, a manager, may review
  the submitted team lunch.
\<close>

theorem no_actor_check_witness:
  "user (withDraft (Some johnEmployee)) = Some johnEmployee
   \<and> findIndex (\<lambda>e. eid e = ''1698912000000'') (allExpenses (withDraft (Some johnEmployee))) = Some 3
   \<and> canSubmit (withDraft (Some johnEmployee)) (Some ''1698912000000'')
   \<and> expense (withDraft (Some johnEmployee)) (Some ''1698912000000'') = Some taxiDraft
   \<and> submittedBy taxiDraft = uid johnEmployee
   \<and> fst (submitExpense ''1698912000000'' (withDraft (Some johnEmployee)))
       = Inr (taxiDraft\<lparr> status := Submitted \<rparr>)
   \<and> user (started (Some sarahManager)) = Some sarahManager
   \<and> findIndex (\<lambda>e. eid e = ''2'') (allExpenses (started (Some sarahManager))) = Some 1
   \<and> canReview (started (Some sarahManager)) (Some ''2'')
   \<and> (role sarahManager = Manager \<or> role sarahManager = Admin)"
proof -
  let ?d = "withDraft (Some johnEmployee)" and ?s = "started (Some sarahManager)"
  have u: "user ?d = Some johnEmployee" by simp
  have f: "findIndex (\<lambda>e. eid e = ''1698912000000'') (allExpenses ?d) = Some 3"
    by (simp only: withDraft_simps draft_index)
  have o: "submittedBy taxiDraft = uid johnEmployee" by (simp add: taxiDraft_def johnEmployee_def)
  have c: "canSubmit ?d (Some ''1698912000000'')"
    by (simp add: canSubmit_iff draft_shown o) (simp add: taxiDraft_def)
  have n: "allExpenses ?d ! 3 = taxiDraft"
    by (simp add: INITIAL_EXPENSES_def)
  have sub: "fst (submitExpense ''1698912000000'' ?d) = Inr (taxiDraft\<lparr> status := Submitted \<rparr>)"
    using no_actor_check [OF u f, THEN conjunct1] by (simp only: n)
  have u2: "user ?s = Some sarahManager" by simp
  have f2: "findIndex (\<lambda>e. eid e = ''2'') (allExpenses ?s) = Some 1" by (simp add: seed_index)
  have x2: "expense ?s (Some ''2'') = Some expense2"
    by (simp add: expense_def getExpenseById_def started_expenses seed_find)
  have c2: "canReview ?s (Some ''2'')"
    by (simp add: canReview_iff x2) (simp add: expense2_def sarahManager_def)
  have r2: "role sarahManager = Manager \<or> role sarahManager = Admin"
    using no_actor_check [OF u2 f2, where idp = "Some ''2''", THEN conjunct2, THEN conjunct2,
        THEN conjunct2, THEN conjunct2, THEN conjunct2, THEN conjunct2, THEN conjunct2] c2
    by (rule mp)
  from u f c draft_shown o sub u2 f2 c2 r2 show ?thesis
    by (intro conjI)
qed

text \<open>
  Against C2 as stated: Emily, an employee who owns none of the seed expenses, approves
  John's submitted expense, resubmits his rejected one and deletes one; every call
  succeeds and changes the stored collection.
\<close>

theorem employee_review_counterexample:
  "role emilyJohnson = Employee \<and> submittedBy expense2 \<noteq> uid emilyJohnson
   \<and> fst (approveExpense ''2023-11-02T09:00:00.000Z'' ''2'' None (started (Some emilyJohnson)))
       = Inr (expense2\<lparr> status := Approved, reviewedBy := Some ''4'',
                reviewedByName := Some ''Emily Johnson'',
                reviewedAt := Some ''2023-11-02T09:00:00.000Z'', comments := None \<rparr>)
   \<and> map status (allExpenses (snd (approveExpense ''2023-11-02T09:00:00.000Z'' ''2'' None
                                      (started (Some emilyJohnson)))))
       = [Approved, Approved, Rejected]
   \<and> submittedBy expense3 \<noteq> uid emilyJohnson
   \<and> fst (submitExpense ''3'' (started (Some emilyJohnson))) = Inr (expense3\<lparr> status := Submitted \<rparr>)
   \<and> fst (deleteExpense ''2'' (started (Some emilyJohnson))) = Inr ()
   \<and> allExpenses (snd (deleteExpense ''2'' (started (Some emilyJohnson)))) = [expense1, expense3]"
proof -
  let ?st = "started (Some emilyJohnson)"
  have u: "user ?st = Some emilyJohnson" by simp
  have f2: "findIndex (\<lambda>e. eid e = ''2'') (allExpenses ?st) = Some 1"
    and f3: "findIndex (\<lambda>e. eid e = ''3'') (allExpenses ?st) = Some 2"
    by (simp_all add: seed_index)
  have a: "role emilyJohnson = Employee \<and> submittedBy expense2 \<noteq> uid emilyJohnson
    \<and> submittedBy expense3 \<noteq> uid emilyJohnson"
    by (simp add: emilyJohnson_def expense2_def expense3_def)
  have b: "fst (approveExpense ''2023-11-02T09:00:00.000Z'' ''2'' None ?st)
       = Inr (expense2\<lparr> status := Approved, reviewedBy := Some ''4'',
                reviewedByName := Some ''Emily Johnson'',
                reviewedAt := Some ''2023-11-02T09:00:00.000Z'', comments := None \<rparr>)"
    by (simp add: approveExpense_value [OF u f2] approveExpense_stored [OF u f2] seed_nth) (simp add: emilyJohnson_def)
  have c: "map status (allExpenses (snd (approveExpense ''2023-11-02T09:00:00.000Z'' ''2'' None ?st)))
       = [Approved, Approved, Rejected]"
    by (simp add: approveExpense_value [OF u f2] approveExpense_stored [OF u f2] map_update seed_status)
  have d: "fst (submitExpense ''3'' ?st) = Inr (expense3\<lparr> status := Submitted \<rparr>)"
    by (simp add: submitExpense_value [OF f3] seed_nth)
  have e: "fst (deleteExpense ''2'' ?st) = Inr ()
    \<and> allExpenses (snd (deleteExpense ''2'' ?st)) = [expense1, expense3]"
    by (simp add: deleteExpense_value deleteExpense_stored)
       (simp add: INITIAL_EXPENSES_def expense1_def expense2_def expense3_def)
  from a b c d e show ?thesis by simp
qed

subsection \<open>C3: the comments of a rejection\<close>

text \<open>
  Claim C3, as the code has it. \<^verbatim>\<open>rejectExpense\<close> does not look at the comments: on a
  submitted expense, for a signed-in user, it succeeds for every comments string, the
  empty and the whitespace-only included, sets the status to \<open>Rejected\<close> and stamps
  \<^verbatim>\<open>reviewedBy\<close>, \<^verbatim>\<open>reviewedByName\<close>, \<^verbatim>\<open>reviewedAt\<close> and \<^verbatim>\<open>comments\<close>. The check is made by
  the detail page's \<^verbatim>\<open>handleReject\<close>: when the comments are empty or only white space it
  shows an error and returns without calling \<^verbatim>\<open>rejectExpense\<close>, the state unchanged;
  otherwise it calls \<^verbatim>\<open>rejectExpense\<close> with them.
\<close>

theorem reject_comments_checked_by_page:
  "(user st = Some u \<and> findIndex (\<lambda>e. eid e = i) (allExpenses st) = Some k
      \<and> status (allExpenses st ! k) = Submitted \<longrightarrow>
        fst (rejectExpense nowIso i c st)
          = Inr ((allExpenses st ! k)\<lparr> status := Rejected, reviewedBy := Some (uid u),
                   reviewedByName := Some (name u), reviewedAt := Some nowIso,
                   comments := Some c \<rparr>)
      \<and> allExpenses (snd (rejectExpense nowIso i c st))
          = (allExpenses st)[k := (allExpenses st ! k)\<lparr> status := Rejected,
                   reviewedBy := Some (uid u), reviewedByName := Some (name u),
                   reviewedAt := Some nowIso, comments := Some c \<rparr>])
   \<and> (expense st idp \<noteq> None \<and> (\<forall>x \<in> set c. isWhiteSpace x) \<longrightarrow>
        handleReject nowIso idp c st
          = ([ToastError ''Please provide a reason for rejection''], st))
   \<and> (expense st (Some i) \<noteq> None \<and> \<not> (\<forall>x \<in> set c. isWhiteSpace x) \<longrightarrow>
        snd (handleReject nowIso (Some i) c st) = snd (rejectExpense nowIso i c st))"
proof (intro conjI impI)
  assume a: "user st = Some u \<and> findIndex (\<lambda>e. eid e = i) (allExpenses st) = Some k
      \<and> status (allExpenses st ! k) = Submitted"
  then have u: "user st = Some u" and f: "findIndex (\<lambda>e. eid e = i) (allExpenses st) = Some k"
    by simp_all
  show "fst (rejectExpense nowIso i c st)
          = Inr ((allExpenses st ! k)\<lparr> status := Rejected, reviewedBy := Some (uid u),
                   reviewedByName := Some (name u), reviewedAt := Some nowIso,
                   comments := Some c \<rparr>)"
    by (simp add: rejectExpense_value [OF u f] rejectExpense_stored [OF u f])
  show "allExpenses (snd (rejectExpense nowIso i c st))
          = (allExpenses st)[k := (allExpenses st ! k)\<lparr> status := Rejected,
                   reviewedBy := Some (uid u), reviewedByName := Some (name u),
                   reviewedAt := Some nowIso, comments := Some c \<rparr>]"
    by (simp add: rejectExpense_value [OF u f] rejectExpense_stored [OF u f])
next
  assume "expense st idp \<noteq> None \<and> (\<forall>x \<in> set c. isWhiteSpace x)"
  then show "handleReject nowIso idp c st
          = ([ToastError ''Please provide a reason for rejection''], st)"
    by (simp add: handleReject_blank trim_empty_iff)
next
  assume "expense st (Some i) \<noteq> None \<and> \<not> (\<forall>x \<in> set c. isWhiteSpace x)"
  then show "snd (handleReject nowIso (Some i) c st) = snd (rejectExpense nowIso i c st)"
    by (simp add: handleReject_calls trim_empty_iff)
qed

text \<open>Sarah rejects the team lunch from the detail page, first with blanks, then with a reason.\<close>

theorem reject_comments_checked_by_page_witness:
  "user (started (Some sarahManager)) = Some sarahManager
   \<and> findIndex (\<lambda>e. eid e = ''2'') (allExpenses (started (Some sarahManager))) = Some 1
   \<and> status (allExpenses (started (Some sarahManager)) ! 1) = Submitted
   \<and> expense (started (Some sarahManager)) (Some ''2'') \<noteq> None
   \<and> trim ''   '' = []
   \<and> handleReject ''2023-11-02T09:00:00.000Z'' (Some ''2'') ''   '' (started (Some sarahManager))
       = ([ToastError ''Please provide a reason for rejection''], started (Some sarahManager))
   \<and> trim ''Use per-diem instead'' \<noteq> []
   \<and> allExpenses (snd (handleReject ''2023-11-02T09:00:00.000Z'' (Some ''2'')
                         ''Use per-diem instead'' (started (Some sarahManager))))
       = [expense1,
          expense2\<lparr> status := Rejected, reviewedBy := Some ''2'',
                    reviewedByName := Some ''Sarah Manager'',
                    reviewedAt := Some ''2023-11-02T09:00:00.000Z'',
                    comments := Some ''Use per-diem instead'' \<rparr>,
          expense3]"
proof -
  let ?st = "started (Some sarahManager)"
  have u: "user ?st = Some sarahManager" by simp
  have f: "findIndex (\<lambda>e. eid e = ''2'') (allExpenses ?st) = Some 1" by (simp add: seed_index)
  have s: "status (allExpenses ?st ! 1) = Submitted" by (simp add: seed_nth expense2_def)
  have x: "expense ?st (Some ''2'') \<noteq> None"
    by (simp add: expense_def getExpenseById_def started_expenses seed_find)
  note t = reject_comments_checked_by_page
    [of ?st sarahManager "''2''" 1 "''2023-11-02T09:00:00.000Z''" _ "Some ''2''"]
  have b: "handleReject ''2023-11-02T09:00:00.000Z'' (Some ''2'') ''   '' ?st
       = ([ToastError ''Please provide a reason for rejection''], ?st)"
    using t [of "''   ''", THEN conjunct2, THEN conjunct1, THEN mp,
             OF conjI [OF x blank_examples(2)]] .
  have c1: "allExpenses (snd (rejectExpense ''2023-11-02T09:00:00.000Z'' ''2''
                         ''Use per-diem instead'' ?st))
       = (allExpenses ?st)[1 := (allExpenses ?st ! 1)\<lparr> status := Rejected,
                   reviewedBy := Some (uid sarahManager), reviewedByName := Some (name sarahManager),
                   reviewedAt := Some ''2023-11-02T09:00:00.000Z'',
                   comments := Some ''Use per-diem instead'' \<rparr>]"
    using t [of "''Use per-diem instead''", THEN conjunct1, THEN mp,
             OF conjI [OF u conjI [OF f s]], THEN conjunct2] .
  have c3: "snd (handleReject ''2023-11-02T09:00:00.000Z'' (Some ''2'')
                         ''Use per-diem instead'' ?st)
          = snd (rejectExpense ''2023-11-02T09:00:00.000Z'' ''2'' ''Use per-diem instead'' ?st)"
    using t [of "''Use per-diem instead''", THEN conjunct2, THEN conjunct2, THEN mp,
             OF conjI [OF x blank_examples(3)]] .
  have d: "(allExpenses ?st)[1 := (allExpenses ?st ! 1)\<lparr> status := Rejected,
                   reviewedBy := Some (uid sarahManager), reviewedByName := Some (name sarahManager),
                   reviewedAt := Some ''2023-11-02T09:00:00.000Z'',
                   comments := Some ''Use per-diem instead'' \<rparr>]
     = [expense1,
          expense2\<lparr> status := Rejected, reviewedBy := Some ''2'',
                    reviewedByName := Some ''Sarah Manager'',
                    reviewedAt := Some ''2023-11-02T09:00:00.000Z'',
                    comments := Some ''Use per-diem instead'' \<rparr>,
          expense3]"
    by (simp add: seed_nth) (simp add: INITIAL_EXPENSES_def sarahManager_def)
  have c: "allExpenses (snd (handleReject ''2023-11-02T09:00:00.000Z'' (Some ''2'')
                         ''Use per-diem instead'' ?st))
     = [expense1,
          expense2\<lparr> status := Rejected, reviewedBy := Some ''2'',
                    reviewedByName := Some ''Sarah Manager'',
                    reviewedAt := Some ''2023-11-02T09:00:00.000Z'',
                    comments := Some ''Use per-diem instead'' \<rparr>,
          expense3]"
    by (simp only: c3 c1 d)
  have t1: "trim ''   '' = []"
    unfolding trim_empty_iff by (rule blank_examples(2))
  have t2: "trim ''Use per-diem instead'' \<noteq> []"
    unfolding trim_empty_iff by (rule blank_examples(3))
  from u f s x t1 b t2 c show ?thesis
    by (intro conjI)
qed

text \<open>
  Against C3 as stated: \<^verbatim>\<open>rejectExpense\<close> with empty and with blank comments succeeds
  on the submitted team lunch and sets it to \<open>Rejected\<close>.
\<close>

theorem reject_blank_comments_counterexample:
  "trim '''' = [] \<and> trim ''   '' = [] \<and> status expense2 = Submitted
   \<and> fst (rejectExpense ''2023-11-02T09:00:00.000Z'' ''2'' '''' (started (Some sarahManager)))
       = Inr (expense2\<lparr> status := Rejected, reviewedBy := Some ''2'',
                reviewedByName := Some ''Sarah Manager'',
                reviewedAt := Some ''2023-11-02T09:00:00.000Z'', comments := Some '''' \<rparr>)
   \<and> map status (allExpenses (snd (rejectExpense ''2023-11-02T09:00:00.000Z'' ''2'' ''''
                                      (started (Some sarahManager)))))
       = [Approved, Rejected, Rejected]
   \<and> fst (rejectExpense ''2023-11-02T09:00:00.000Z'' ''2'' ''   '' (started (Some sarahManager)))
       = Inr (expense2\<lparr> status := Rejected, reviewedBy := Some ''2'',
                reviewedByName := Some ''Sarah Manager'',
                reviewedAt := Some ''2023-11-02T09:00:00.000Z'', comments := Some ''   '' \<rparr>)"
proof -
  have u: "user (started (Some sarahManager)) = Some sarahManager" by simp
  have f: "findIndex (\<lambda>e. eid e = ''2'') (allExpenses (started (Some sarahManager))) = Some 1"
    by (simp add: seed_index)
  have t: "trim '''' = []" "trim ''   '' = []"
    by (simp_all add: trim_empty_iff blank_examples)
  show ?thesis
    by (simp add: rejectExpense_value [OF u f] rejectExpense_stored [OF u f] seed_nth t map_update seed_status)
       (simp add: expense2_def sarahManager_def)
qed

subsection \<open>C4: role-filtered listing\<close>

text \<open>
  Claim C4. With principal \<open>p\<close> signed in, \<^verbatim>\<open>loadExpenses\<close> leaves as the listed
  expenses exactly the stored expenses whose \<^verbatim>\<open>submittedBy\<close> is \<open>p\<close>'s id when \<open>p\<close> is an
  employee, in stored order, and the whole stored collection when \<open>p\<close> is a manager or
  an admin.
\<close>

theorem loadExpenses_visibility:
  assumes "user st = Some p"
  shows "(role p = Employee \<longrightarrow>
            expenses (loadExpenses st) = filter (\<lambda>e. submittedBy e = uid p) (allExpenses st)
          \<and> set (expenses (loadExpenses st)) = {e \<in> set (allExpenses st). submittedBy e = uid p})
       \<and> (role p = Manager \<or> role p = Admin \<longrightarrow> expenses (loadExpenses st) = allExpenses st)"
  using assms by (auto simp add: loadExpenses_def Let_def)

text \<open>Emily (employee, no expenses), John (employee, owner of all three) and Sarah (manager).\<close>

theorem loadExpenses_visibility_witness:
  "user (started (Some emilyJohnson)) = Some emilyJohnson \<and> role emilyJohnson = Employee
   \<and> expenses (loadExpenses (started (Some emilyJohnson))) = []
   \<and> user (started (Some johnEmployee)) = Some johnEmployee \<and> role johnEmployee = Employee
   \<and> expenses (loadExpenses (started (Some johnEmployee))) = [expense1, expense2, expense3]
   \<and> user (started (Some sarahManager)) = Some sarahManager \<and> role sarahManager = Manager
   \<and> expenses (loadExpenses (started (Some sarahManager))) = [expense1, expense2, expense3]"
proof -
  have e: "user (started (Some emilyJohnson)) = Some emilyJohnson"
    and j: "user (started (Some johnEmployee)) = Some johnEmployee"
    and s: "user (started (Some sarahManager)) = Some sarahManager"
    by simp_all
  show ?thesis
    using loadExpenses_visibility [OF e] loadExpenses_visibility [OF j]
      loadExpenses_visibility [OF s]
    by (simp add: INITIAL_EXPENSES_def expense1_def expense2_def expense3_def
          johnEmployee_def sarahManager_def emilyJohnson_def)
qed

subsection \<open>C5: positive amounts\<close>

text \<open>
  Claim C5, as the code has it. \<^verbatim>\<open>createExpense\<close> and \<^verbatim>\<open>updateExpense\<close> do not check
  the amount. The record they return carries the amount given, and the collection
  holds it as JSON reads it back: a finite amount as given, \<open>NaN\<close> or an infinity as
  \<^verbatim>\<open>null\<close>. If every stored expense has an amount above zero and the amount supplied
  is a finite number above zero (for \<^verbatim>\<open>updateExpense\<close>: or none is supplied), every
  stored expense has an amount above zero afterwards. The check is made by the form:
  \<^verbatim>\<open>validateForm\<close> fails when the amount text is empty or \<^verbatim>\<open>Number(amount)\<close> is \<open>NaN\<close> or
  at most zero, and \<^verbatim>\<open>handleSubmit\<close> then returns before it calls \<^verbatim>\<open>createExpense\<close> or
  \<^verbatim>\<open>updateExpense\<close>, the state unchanged.
\<close>

theorem amount_checked_by_form:
  "((\<forall>e \<in> set (allExpenses st). gt0 (amount e)) \<and> user st = Some u
        \<and> amount d = Num x \<and> 0 < x \<longrightarrow>
       (\<exists>e. fst (createExpense nowId nowIso d st) = Inr e \<and> amount e = amount d)
     \<and> (\<forall>e \<in> set (allExpenses (snd (createExpense nowId nowIso d st))). gt0 (amount e)))
   \<and> ((\<forall>e \<in> set (allExpenses st). gt0 (amount e))
        \<and> (p_amount p = None \<or> (\<exists>y. p_amount p = Some (Num y) \<and> 0 < y)) \<longrightarrow>
       (\<forall>e \<in> set (allExpenses (snd (updateExpense i p st))). gt0 (amount e)))
   \<and> (user st = Some u \<longrightarrow>
       map amount (allExpenses (snd (createExpense nowId nowIso d st)))
         = map amount (allExpenses st) @ [jsonAmount (amount d)])
   \<and> (findIndex (\<lambda>e. eid e = i) (allExpenses st) = Some k \<longrightarrow>
       map amount (allExpenses (snd (updateExpense i p st)))
         = (map amount (allExpenses st))
             [k := jsonAmount (override (amount (allExpenses st ! k)) (p_amount p))])
   \<and> (f_amount f = [] \<or> isNaN (toNumber (f_amount f)) \<or> le0 (toNumber (f_amount f)) \<longrightarrow>
       \<not> validateForm toNumber f
     \<and> handleSubmit toNumber parseFloat nowId nowIso idp f submitAsDraft st = ([], st))"
proof (intro conjI impI)
  assume a: "(\<forall>e \<in> set (allExpenses st). gt0 (amount e)) \<and> user st = Some u
        \<and> amount d = Num x \<and> 0 < x"
  then show "\<exists>e. fst (createExpense nowId nowIso d st) = Inr e \<and> amount e = amount d"
    by (simp add: createExpense_signed_in)
  from a show "\<forall>e \<in> set (allExpenses (snd (createExpense nowId nowIso d st))). gt0 (amount e)"
    by (intro createExpense_keeps_positive [where x = x]) simp_all
next
  assume "(\<forall>e \<in> set (allExpenses st). gt0 (amount e))
        \<and> (p_amount p = None \<or> (\<exists>y. p_amount p = Some (Num y) \<and> 0 < y))"
  then show "\<forall>e \<in> set (allExpenses (snd (updateExpense i p st))). gt0 (amount e)"
    by (intro updateExpense_keeps_positive) simp_all
next
  assume "user st = Some u"
  then show "map amount (allExpenses (snd (createExpense nowId nowIso d st)))
         = map amount (allExpenses st) @ [jsonAmount (amount d)]"
    by (simp add: createExpense_stored)
next
  assume "findIndex (\<lambda>e. eid e = i) (allExpenses st) = Some k"
  then show "map amount (allExpenses (snd (updateExpense i p st)))
         = (map amount (allExpenses st))
             [k := jsonAmount (override (amount (allExpenses st ! k)) (p_amount p))]"
    by (simp add: updateExpense_stored map_update amount_spread)
next
  assume b: "f_amount f = [] \<or> isNaN (toNumber (f_amount f)) \<or> le0 (toNumber (f_amount f))"
  then show v: "\<not> validateForm toNumber f"
    by (cases "toNumber (f_amount f)") (auto simp add: validateForm_amount)
  then show "handleSubmit toNumber parseFloat nowId nowIso idp f submitAsDraft st = ([], st)"
    by (rule handleSubmit_invalid)
qed

text \<open>
  John creates the taxi expense, changes the amount of the team lunch to 200, and
  tries to save a form whose amount is 0.
\<close>

theorem amount_checked_by_form_witness:
  "list_all (\<lambda>e. gt0 (amount e)) (allExpenses (started (Some johnEmployee)))
   \<and> user (started (Some johnEmployee)) = Some johnEmployee
   \<and> amount taxiData = Num 42 \<and> (0::real) < 42
   \<and> list_all (\<lambda>e. gt0 (amount e))
        (allExpenses (snd (createExpense ''1698912000000'' ''2023-11-02T08:00:00.000Z'' taxiData
                             (started (Some johnEmployee)))))
   \<and> map amount (allExpenses (snd (createExpense ''1698912000000'' ''2023-11-02T08:00:00.000Z''
                                      taxiData (started (Some johnEmployee)))))
       = [Num 1250.75, Num 187.50, Num 1899.99, Num 42]
   \<and> p_amount (noFields\<lparr> p_amount := Some (Num 200) \<rparr>) = Some (Num 200) \<and> (0::real) < 200
   \<and> findIndex (\<lambda>e. eid e = ''2'') (allExpenses (started (Some johnEmployee))) = Some 1
   \<and> list_all (\<lambda>e. gt0 (amount e))
        (allExpenses (snd (updateExpense ''2'' (noFields\<lparr> p_amount := Some (Num 200) \<rparr>)
                             (started (Some johnEmployee)))))
   \<and> map amount (allExpenses (snd (updateExpense ''2'' (noFields\<lparr> p_amount := Some (Num 200) \<rparr>)
                                      (started (Some johnEmployee)))))
       = [Num 1250.75, Num 200, Num 1899.99]
   \<and> le0 (readAmount (f_amount (taxiForm\<lparr> f_amount := ''0'' \<rparr>)))
   \<and> handleSubmit readAmount readAmount ''1698912000000'' ''2023-11-02T08:00:00.000Z'' None
        (taxiForm\<lparr> f_amount := ''0'' \<rparr>) False (started (Some johnEmployee))
       = ([], started (Some johnEmployee))"
proof -
  let ?st = "started (Some johnEmployee)"
  let ?p = "noFields\<lparr> p_amount := Some (Num 200) \<rparr>"
  let ?f = "taxiForm\<lparr> f_amount := ''0'' \<rparr>"
  note t = amount_checked_by_form [where st = ?st and u = johnEmployee and d = taxiData
      and x = 42 and k = 1
      and nowId = "''1698912000000''" and nowIso = "''2023-11-02T08:00:00.000Z''"
      and p = ?p and i = "''2''" and f = ?f and toNumber = readAmount
      and parseFloat = readAmount and idp = None and submitAsDraft = False]
  have a: "list_all (\<lambda>e. gt0 (amount e)) (allExpenses ?st)" by (simp add: seed_amounts)
  then have a': "\<forall>e \<in> set (allExpenses ?st). gt0 (amount e)" by (simp only: list_all_iff)
  have u: "user ?st = Some johnEmployee" by simp
  have d: "amount taxiData = Num 42" "(0::real) < 42" by (simp_all add: taxiData_def)
  have p: "p_amount ?p = Some (Num 200)" "(0::real) < 200" by simp_all
  then have p': "p_amount ?p = None \<or> (\<exists>y. p_amount ?p = Some (Num y) \<and> 0 < y)" by blast
  have f: "findIndex (\<lambda>e. eid e = ''2'') (allExpenses ?st) = Some 1" by (simp add: seed_index)
  have z: "le0 (readAmount (f_amount ?f))" by (rule form_examples(3))
  then have z': "f_amount ?f = [] \<or> isNaN (readAmount (f_amount ?f)) \<or> le0 (readAmount (f_amount ?f))"
    by blast
  have m: "map amount INITIAL_EXPENSES = [Num 1250.75, Num 187.50, Num 1899.99]"
    by (simp add: INITIAL_EXPENSES_def expense1_def expense2_def expense3_def)
  have c: "list_all (\<lambda>e. gt0 (amount e))
        (allExpenses (snd (createExpense ''1698912000000'' ''2023-11-02T08:00:00.000Z'' taxiData ?st)))"
    using t [THEN conjunct1, THEN mp, OF conjI [OF a' conjI [OF u conjI [OF d]]], THEN conjunct2]
    by (simp only: list_all_iff)
  have c': "map amount (allExpenses (snd (createExpense ''1698912000000''
                ''2023-11-02T08:00:00.000Z'' taxiData ?st)))
       = [Num 1250.75, Num 187.50, Num 1899.99, Num 42]"
    using t [THEN conjunct2, THEN conjunct2, THEN conjunct1, THEN mp, OF u]
    by (simp add: m d(1))
  have e: "list_all (\<lambda>e. gt0 (amount e)) (allExpenses (snd (updateExpense ''2'' ?p ?st)))"
    using t [THEN conjunct2, THEN conjunct1, THEN mp, OF conjI [OF a' p']]
    by (simp only: list_all_iff)
  have e': "map amount (allExpenses (snd (updateExpense ''2'' ?p ?st)))
       = [Num 1250.75, Num 200, Num 1899.99]"
    using t [THEN conjunct2, THEN conjunct2, THEN conjunct2, THEN conjunct1, THEN mp, OF f]
    by (simp add: m)
  have h: "handleSubmit readAmount readAmount ''1698912000000'' ''2023-11-02T08:00:00.000Z'' None
        ?f False ?st = ([], ?st)"
    using t [THEN conjunct2, THEN conjunct2, THEN conjunct2, THEN conjunct2, THEN mp, OF z',
        THEN conjunct2] .
  from a u d c c' p f e e' z h show ?thesis by (intro conjI)
qed

text \<open>
  Against C5 as stated: \<^verbatim>\<open>createExpense\<close> with amount 0 and \<^verbatim>\<open>updateExpense\<close> with
  amount -5 succeed and store these amounts; \<^verbatim>\<open>createExpense\<close> with the amount
  \<^verbatim>\<open>Infinity\<close>, which is above zero, succeeds and stores \<^verbatim>\<open>null\<close>, which is not.
\<close>

theorem amount_not_positive_counterexample:
  "\<not> gt0 (Num 0)
   \<and> fst (createExpense ''1698912000000'' ''2023-11-02T08:00:00.000Z''
            (taxiData\<lparr> amount := Num 0 \<rparr>) (started (Some johnEmployee)))
       = Inr (taxiDraft\<lparr> amount := Num 0 \<rparr>)
   \<and> map amount (allExpenses (snd (createExpense ''1698912000000'' ''2023-11-02T08:00:00.000Z''
                                      (taxiData\<lparr> amount := Num 0 \<rparr>) (started (Some johnEmployee)))))
       = [Num 1250.75, Num 187.50, Num 1899.99, Num 0]
   \<and> \<not> gt0 (Num (- 5))
   \<and> fst (updateExpense ''2'' (noFields\<lparr> p_amount := Some (Num (- 5)) \<rparr>)
            (started (Some johnEmployee)))
       = Inr (expense2\<lparr> amount := Num (- 5) \<rparr>)
   \<and> map amount (allExpenses (snd (updateExpense ''2'' (noFields\<lparr> p_amount := Some (Num (- 5)) \<rparr>)
                                      (started (Some johnEmployee)))))
       = [Num 1250.75, Num (- 5), Num 1899.99]
   \<and> gt0 PosInfinity
   \<and> fst (createExpense ''1698912000000'' ''2023-11-02T08:00:00.000Z''
            (taxiData\<lparr> amount := PosInfinity \<rparr>) (started (Some johnEmployee)))
       = Inr (taxiDraft\<lparr> amount := PosInfinity \<rparr>)
   \<and> map amount (allExpenses (snd (createExpense ''1698912000000'' ''2023-11-02T08:00:00.000Z''
                                      (taxiData\<lparr> amount := PosInfinity \<rparr>)
                                      (started (Some johnEmployee)))))
       = [Num 1250.75, Num 187.50, Num 1899.99, Null]
   \<and> \<not> gt0 Null"
proof -
  let ?st = "started (Some johnEmployee)"
  have u: "user ?st = Some johnEmployee" by simp
  have f: "findIndex (\<lambda>e. eid e = ''2'') (allExpenses ?st) = Some 1" by (simp add: seed_index)
  have m: "map amount INITIAL_EXPENSES = [Num 1250.75, Num 187.50, Num 1899.99]"
    by (simp add: INITIAL_EXPENSES_def expense1_def expense2_def expense3_def)
  have c1: "fst (createExpense ''1698912000000'' ''2023-11-02T08:00:00.000Z''
            (taxiData\<lparr> amount := a \<rparr>) ?st) = Inr (taxiDraft\<lparr> amount := a \<rparr>)" for a
    unfolding createExpense_signed_in [OF u]
    by (simp add: taxiData_def taxiDraft_def johnEmployee_def)
  have c2: "map amount (allExpenses (snd (createExpense ''1698912000000'' ''2023-11-02T08:00:00.000Z''
                                      (taxiData\<lparr> amount := a \<rparr>) ?st)))
       = [Num 1250.75, Num 187.50, Num 1899.99, jsonAmount a]" for a
    by (simp add: createExpense_stored [OF u] m)
  have sp: "spread e (noFields\<lparr> p_amount := Some a \<rparr>) = e\<lparr> amount := a \<rparr>" for e a
    by (simp add: spread_def noFields_def)
  have u1: "fst (updateExpense ''2'' (noFields\<lparr> p_amount := Some (Num (- 5)) \<rparr>) ?st)
       = Inr (expense2\<lparr> amount := Num (- 5) \<rparr>)"
    by (simp add: updateExpense_value [OF f] sp seed_nth)
  have u2: "map amount (allExpenses (snd (updateExpense ''2'' (noFields\<lparr> p_amount := Some (Num (- 5)) \<rparr>) ?st)))
       = [Num 1250.75, Num (- 5), Num 1899.99]"
    by (simp add: updateExpense_stored [OF f] sp map_update m)
  have n: "\<not> gt0 (Num 0)" "\<not> gt0 (Num (- 5))" "gt0 PosInfinity" "\<not> gt0 Null" by simp_all
  have j: "jsonAmount (Num 0) = Num 0" "jsonAmount PosInfinity = Null" by simp_all
  from n(1) c1 [of "Num 0"] c2 [of "Num 0", unfolded j] n(2) u1 u2 n(3) c1 [of PosInfinity]
    c2 [of PosInfinity, unfolded j] n(4)
  show ?thesis by (intro conjI)
qed

subsection \<open>C6: deletion against the current status\<close>

text \<open>
  Claim C6, as the code has it. \<^verbatim>\<open>deleteExpense\<close> does not look at the status: for every
  id it succeeds and removes every stored expense with that id, so that
  \<^verbatim>\<open>getExpenseById\<close> afterwards finds none, for a draft as for any other status. The
  restriction to drafts is carried by the detail page's predicate \<^verbatim>\<open>canDelete\<close>, which
  holds only when the expense shown is a draft submitted by the signed-in user.
\<close>

theorem deleteExpense_ignores_status:
  "fst (deleteExpense i st) = Inr ()
   \<and> allExpenses (snd (deleteExpense i st)) = filter (\<lambda>e. eid e \<noteq> i) (allExpenses st)
   \<and> getExpenseById (snd (deleteExpense i st)) i = None
   \<and> (canDelete st idp \<longrightarrow>
        (\<exists>u e. user st = Some u \<and> expense st idp = Some e
               \<and> submittedBy e = uid u \<and> status e = Draft))"
proof (intro conjI)
  show "getExpenseById (snd (deleteExpense i st)) i = None"
    unfolding deleteExpense_result snd_conv
    by (rule find_loadExpenses_None) (simp add: allExpenses_filter_json)
qed (simp_all add: deleteExpense_value deleteExpense_stored canDelete_iff)

text \<open>John deletes his draft.\<close>

theorem deleteExpense_ignores_status_witness:
  "canDelete (withDraft (Some johnEmployee)) (Some ''1698912000000'')
   \<and> expense (withDraft (Some johnEmployee)) (Some ''1698912000000'') = Some taxiDraft
   \<and> status taxiDraft = Draft
   \<and> fst (deleteExpense ''1698912000000'' (withDraft (Some johnEmployee))) = Inr ()
   \<and> allExpenses (snd (deleteExpense ''1698912000000'' (withDraft (Some johnEmployee))))
       = [expense1, expense2, expense3]
   \<and> getExpenseById (snd (deleteExpense ''1698912000000'' (withDraft (Some johnEmployee))))
       ''1698912000000'' = None"
proof -
  let ?st = "withDraft (Some johnEmployee)"
  note t = deleteExpense_ignores_status [of "''1698912000000''" ?st "Some ''1698912000000''"]
  have s: "status taxiDraft = Draft" by (simp add: taxiDraft_def)
  have o: "submittedBy taxiDraft = uid johnEmployee" by (simp add: taxiDraft_def johnEmployee_def)
  have c: "canDelete ?st (Some ''1698912000000'')"
    by (simp add: canDelete_iff draft_shown s o)
  have a: "allExpenses (snd (deleteExpense ''1698912000000'' ?st)) = [expense1, expense2, expense3]"
    using t [THEN conjunct2, THEN conjunct1, unfolded withDraft_simps draft_filter]
    by (simp only: INITIAL_EXPENSES_def)
  from c draft_shown s t [THEN conjunct1] a t [THEN conjunct2, THEN conjunct2, THEN conjunct1]
  show ?thesis by (intro conjI)
qed

text \<open>
  Against C6 as stated: deleting the submitted team lunch, and deleting the approved
  business trip, succeed and remove them.
\<close>

theorem delete_submitted_counterexample:
  "status expense2 = Submitted \<and> status expense1 = Approved
   \<and> fst (deleteExpense ''2'' (started (Some johnEmployee))) = Inr ()
   \<and> allExpenses (snd (deleteExpense ''2'' (started (Some johnEmployee)))) = [expense1, expense3]
   \<and> fst (deleteExpense ''1'' (started (Some johnEmployee))) = Inr ()
   \<and> allExpenses (snd (deleteExpense ''1'' (started (Some johnEmployee)))) = [expense2, expense3]"
  by (simp add: deleteExpense_value deleteExpense_stored)
     (simp add: INITIAL_EXPENSES_def expense1_def expense2_def expense3_def)

subsection \<open>C7: resubmission of a rejected expense\<close>

text \<open>
  Claim C7. When the id designates a rejected expense (the first stored expense with
  that id) and its owner is signed in, \<^verbatim>\<open>submitExpense\<close> succeeds, returns that expense
  with the status set to \<open>Submitted\<close> and every other field as it was, the review
  fields and comments included, and stores it in the same place; no other stored
  expense changes.
\<close>

theorem submitExpense_resubmission:
  assumes found: "findIndex (\<lambda>e. eid e = i) (allExpenses st) = Some k"
    and rejected: "status (allExpenses st ! k) = Rejected"
    and owner: "user st = Some u" "submittedBy (allExpenses st ! k) = uid u"
  shows "fst (submitExpense i st) = Inr ((allExpenses st ! k)\<lparr> status := Submitted \<rparr>)
       \<and> allExpenses (snd (submitExpense i st))
           = (allExpenses st)[k := (allExpenses st ! k)\<lparr> status := Submitted \<rparr>]"
  by (simp add: submitExpense_value [OF found] submitExpense_stored [OF found])

text \<open>John resubmits his rejected laptop expense.\<close>

theorem submitExpense_resubmission_witness:
  "findIndex (\<lambda>e. eid e = ''3'') (allExpenses (started (Some johnEmployee))) = Some 2
   \<and> status (allExpenses (started (Some johnEmployee)) ! 2) = Rejected
   \<and> user (started (Some johnEmployee)) = Some johnEmployee
   \<and> submittedBy (allExpenses (started (Some johnEmployee)) ! 2) = uid johnEmployee
   \<and> fst (submitExpense ''3'' (started (Some johnEmployee))) = Inr (expense3\<lparr> status := Submitted \<rparr>)
   \<and> allExpenses (snd (submitExpense ''3'' (started (Some johnEmployee))))
       = [expense1, expense2, expense3\<lparr> status := Submitted \<rparr>]"
proof -
  have f: "findIndex (\<lambda>e. eid e = ''3'') (allExpenses (started (Some johnEmployee))) = Some 2"
    by (simp add: seed_index)
  have r: "status (allExpenses (started (Some johnEmployee)) ! 2) = Rejected"
    by (simp add: seed_nth expense3_def)
  have u: "user (started (Some johnEmployee)) = Some johnEmployee" by simp
  have o: "submittedBy (allExpenses (started (Some johnEmployee)) ! 2) = uid johnEmployee"
    by (simp add: seed_nth expense3_def johnEmployee_def)
  show ?thesis
    using f r u o submitExpense_resubmission [OF f r u o]
    by (simp add: seed_nth) (simp add: INITIAL_EXPENSES_def)
qed

subsection \<open>C8: editing\<close>

text \<open>
  Claim C8, as the code has it. \<^verbatim>\<open>updateExpense\<close> replaces the fields whose keys its
  data carries and leaves every other field as it was; the status is unchanged when
  the data carries no status. The form's edit (\<^verbatim>\<open>handleSubmit\<close> in edit mode, saving as
  draft) always supplies the status \<open>Draft\<close> together with title, amount, date,
  category, description and receipt URL: the stored expense keeps its id, its
  submitter and review fields and its comments, and its status becomes \<open>Draft\<close>. So
  an edited draft stays a draft, and an edited rejected expense becomes a draft.
\<close>

theorem edit_overwrites_supplied_fields:
  assumes "findIndex (\<lambda>e. eid e = i) (allExpenses st) = Some k"
  shows "fst (updateExpense i p st) = Inr (spread (allExpenses st ! k) p)
       \<and> allExpenses (snd (updateExpense i p st))
           = (allExpenses st)[k := jsonExpense (spread (allExpenses st ! k) p)]
       \<and> (p_status p = None \<longrightarrow>
            status (spread (allExpenses st ! k) p) = status (allExpenses st ! k))
       \<and> (validateForm toNumber f \<and> i \<noteq> [] \<and> getExpenseById st i \<noteq> None \<longrightarrow>
            allExpenses (snd (handleSubmit toNumber parseFloat nowId nowIso (Some i) f True st))
              = (allExpenses st)[k := (allExpenses st ! k)
                   \<lparr> title := f_title f, amount := jsonAmount (parseFloat (f_amount f)),
                     date := f_date f, category := f_category f,
                     description := f_description f, status := Draft,
                     receiptUrl := Some (uploadedReceiptUrl f) \<rparr>])"
proof (intro conjI impI)
  assume "validateForm toNumber f \<and> i \<noteq> [] \<and> getExpenseById st i \<noteq> None"
  then have "handleSubmit toNumber parseFloat nowId nowIso (Some i) f True st
     = ([ToastSuccess ''Expense updated successfully''],
        snd (updateExpense i (expenseDataEdit parseFloat f) st))"
    using assms by (intro handleSubmit_edit_as_draft) simp_all
  then show "allExpenses (snd (handleSubmit toNumber parseFloat nowId nowIso (Some i) f True st))
              = (allExpenses st)[k := (allExpenses st ! k)
                   \<lparr> title := f_title f, amount := jsonAmount (parseFloat (f_amount f)),
                     date := f_date f, category := f_category f,
                     description := f_description f, status := Draft,
                     receiptUrl := Some (uploadedReceiptUrl f) \<rparr>]"
    by (simp add: updateExpense_stored [OF assms] spread_edit jsonExpense_edit)
qed (simp_all add: updateExpense_value [OF assms] updateExpense_stored [OF assms] spread_def)

text \<open>John retitles his taxi draft in the form, and by a direct update that carries only a title.\<close>

theorem edit_overwrites_supplied_fields_witness:
  "findIndex (\<lambda>e. eid e = ''1698912000000'') (allExpenses (withDraft (Some johnEmployee))) = Some 3
   \<and> validateForm readAmount taxiForm
   \<and> getExpenseById (withDraft (Some johnEmployee)) ''1698912000000'' = Some taxiDraft
   \<and> status taxiDraft = Draft
   \<and> allExpenses (snd (handleSubmit readAmount readAmount ''1698913000000''
                         ''2023-11-02T08:16:40.000Z'' (Some ''1698912000000'') taxiForm True
                         (withDraft (Some johnEmployee))))
       = [expense1, expense2, expense3, taxiDraft\<lparr> title := ''Taxi to JFK'' \<rparr>]
   \<and> p_status (noFields\<lparr> p_title := Some ''Cab'' \<rparr>) = None
   \<and> fst (updateExpense ''1698912000000'' (noFields\<lparr> p_title := Some ''Cab'' \<rparr>)
            (withDraft (Some johnEmployee)))
       = Inr (taxiDraft\<lparr> title := ''Cab'' \<rparr>)"
proof -
  let ?st = "withDraft (Some johnEmployee)"
  let ?p = "noFields\<lparr> p_title := Some ''Cab'' \<rparr>"
  have f: "findIndex (\<lambda>e. eid e = ''1698912000000'') (allExpenses ?st) = Some 3"
    by (simp only: withDraft_simps draft_index)
  note t = edit_overwrites_supplied_fields [OF f, where p = ?p and f = taxiForm
      and toNumber = readAmount and parseFloat = readAmount and nowId = "''1698913000000''"
      and nowIso = "''2023-11-02T08:16:40.000Z''"]
  have v: "validateForm readAmount taxiForm" by (rule form_examples(2))
  have g: "getExpenseById ?st ''1698912000000'' = Some taxiDraft"
    by (simp add: getExpenseById_def withDraft_expenses draft_find)
  then have g': "getExpenseById ?st ''1698912000000'' \<noteq> None" by simp
  have i: "''1698912000000'' \<noteq> []" by simp
  have s: "status taxiDraft = Draft" by (simp add: taxiDraft_def)
  have n: "allExpenses ?st ! 3 = taxiDraft" by (simp add: INITIAL_EXPENSES_def)
  have r: "(allExpenses ?st)[3 := (allExpenses ?st ! 3)
                   \<lparr> title := f_title taxiForm,
                     amount := jsonAmount (readAmount (f_amount taxiForm)),
                     date := f_date taxiForm, category := f_category taxiForm,
                     description := f_description taxiForm, status := Draft,
                     receiptUrl := Some (uploadedReceiptUrl taxiForm) \<rparr>]
     = [expense1, expense2, expense3, taxiDraft\<lparr> title := ''Taxi to JFK'' \<rparr>]"
    unfolding n
    by (simp add: INITIAL_EXPENSES_def)
       (simp add: taxiDraft_def taxiForm_def readAmount_def uploadedReceiptUrl_def)
  have h: "allExpenses (snd (handleSubmit readAmount readAmount ''1698913000000''
                         ''2023-11-02T08:16:40.000Z'' (Some ''1698912000000'') taxiForm True ?st))
       = [expense1, expense2, expense3, taxiDraft\<lparr> title := ''Taxi to JFK'' \<rparr>]"
    using t [THEN conjunct2, THEN conjunct2, THEN conjunct2, THEN mp, OF conjI [OF v conjI [OF i g']]]
    by (simp only: r)
  have ps: "p_status ?p = None" by (simp add: noFields_def)
  have sp: "spread taxiDraft ?p = taxiDraft\<lparr> title := ''Cab'' \<rparr>"
    by (simp add: spread_def noFields_def)
  have up: "fst (updateExpense ''1698912000000'' ?p ?st) = Inr (taxiDraft\<lparr> title := ''Cab'' \<rparr>)"
    using t [THEN conjunct1] by (simp only: n sp)
  from f v g s h ps up show ?thesis by (intro conjI)
qed

text \<open>
  Against C8 as stated: John opens his rejected laptop expense in the form and saves it
  unchanged; the stored expense is then a draft.
\<close>

theorem edit_rejected_counterexample:
  "status expense3 = Rejected
   \<and> validateForm readAmount laptopForm
   \<and> getExpenseById (started (Some johnEmployee)) ''3'' = Some expense3
   \<and> allExpenses (snd (handleSubmit readAmount readAmount ''1698913000000''
                         ''2023-11-02T08:16:40.000Z'' (Some ''3'') laptopForm True
                         (started (Some johnEmployee))))
       = [expense1, expense2, expense3\<lparr> status := Draft \<rparr>]"
proof -
  let ?st = "started (Some johnEmployee)"
  have f: "findIndex (\<lambda>e. eid e = ''3'') (allExpenses ?st) = Some 2" by (simp add: seed_index)
  have g: "getExpenseById ?st ''3'' = Some expense3"
    by (simp add: getExpenseById_def started_expenses seed_find)
  then have g': "getExpenseById ?st ''3'' \<noteq> None" by simp
  have i: "''3'' \<noteq> []" by simp
  have s: "status expense3 = Rejected" by (simp add: expense3_def)
  have e: "spread expense3 (expenseDataEdit readAmount laptopForm) = expense3\<lparr> status := Draft \<rparr>"
    unfolding spread_edit
    by (simp add: expense3_def laptopForm_def readAmount_def uploadedReceiptUrl_def)
  have h: "allExpenses (snd (handleSubmit readAmount readAmount ''1698913000000''
                         ''2023-11-02T08:16:40.000Z'' (Some ''3'') laptopForm True ?st))
       = [expense1, expense2, expense3\<lparr> status := Draft \<rparr>]"
    unfolding handleSubmit_edit_as_draft [OF form_examples(1) i g' f] snd_conv
      updateExpense_stored [OF f]
    by (simp add: seed_nth e seed_json) (simp add: INITIAL_EXPENSES_def)
  from s form_examples(1) g h show ?thesis by (intro conjI)
qed

subsection \<open>C9: category totals and the total amount\<close>

text \<open>
  Claim C9, as the code has it. The total amount and the category totals are sums of
  binary64 numbers, and every addition rounds. When every amount of the visible set is
  a whole multiple \<open>n e\<close> of one power of two \<open>2 ^ k\<close>, \<open>- 1074 \<le> k \<le> 970\<close>, and the
  multiples add up to less than \<open>2 ^ 53\<close>, no addition rounds, and for every
  combination of filters, however dates compare, the sum over all categories of the
  category totals of the filtered set equals its total amount. Amounts in quarters of
  a unit are of this kind, amounts in cents are not.
\<close>

theorem category_totals_when_exact:
  fixes n :: "Expense \<Rightarrow> nat"
  assumes "\<forall>e \<in> set xs. amount e = Num (real (n e) * 2 powi k)"
    and "sum_list (map n xs) < 2 ^ 53" and "- 1074 \<le> k" and "k \<le> 970"
  shows "categoryTotalsSum (filteredExpenses notBefore beforeDayAfter filters xs)
           = totalAmount (filteredExpenses notBefore beforeDayAfter filters xs)"
proof -
  obtain P where P: "filteredExpenses notBefore beforeDayAfter filters xs = filter P xs"
    using filteredExpenses_filter by blast
  have am: "\<forall>e \<in> set (filter P xs). amount e = Num (real (n e) * 2 powi k)"
    using assms(1) by simp
  have "sum_list (map n (filter P xs)) \<le> sum_list (map n xs)"
    by (rule sum_list_filter_le_nat)
  with assms(2) have small: "sum_list (map n (filter P xs)) < 2 ^ 53" by simp
  show ?thesis
    unfolding P report_exact [OF am small assms(3,4)] ..
qed

text \<open>
  The business trip (1250.75), the team lunch (187.50) and the taxi draft (42) are
  5003, 750 and 168 quarters. With the category travel selected, the trip and the taxi
  remain, the total amount is 1292.75, and so is the sum of the category totals.
\<close>

theorem category_totals_when_exact_witness:
  "list_all (\<lambda>e. amount e = Num (real (quarters e) * 2 powi (- 2))) [expense1, expense2, taxiDraft]
   \<and> map quarters [expense1, expense2, taxiDraft] = [5003, 750, 168]
   \<and> sum_list (map quarters [expense1, expense2, taxiDraft]) < 2 ^ 53
   \<and> filteredExpenses always always travelOnly [expense1, expense2, taxiDraft]
        = [expense1, taxiDraft]
   \<and> totalAmount (filteredExpenses always always travelOnly [expense1, expense2, taxiDraft])
        = Num 1292.75
   \<and> categoryTotalsSum (filteredExpenses always always travelOnly [expense1, expense2, taxiDraft])
        = totalAmount (filteredExpenses always always travelOnly [expense1, expense2, taxiDraft])"
proof -
  have q: "map quarters [expense1, expense2, taxiDraft] = [5003, 750, 168]"
    by (simp add: quarters_def expense1_def expense2_def taxiDraft_def)
  have a: "list_all (\<lambda>e. amount e = Num (real (quarters e) * 2 powi (- 2)))
             [expense1, expense2, taxiDraft]"
    by (simp add: quarters_def expense1_def expense2_def taxiDraft_def)
  then have a': "\<forall>e \<in> set [expense1, expense2, taxiDraft].
      amount e = Num (real (quarters e) * 2 powi (- 2))"
    by (simp only: list_all_iff)
  have s: "sum_list (map quarters [expense1, expense2, taxiDraft]) < 2 ^ 53"
    unfolding q by simp
  have f: "filteredExpenses always always travelOnly [expense1, expense2, taxiDraft]
      = [expense1, taxiDraft]"
    by (simp add: filteredExpenses_def travelOnly_def expense1_def expense2_def taxiDraft_def)
  have a2: "\<forall>e \<in> set [expense1, taxiDraft]. amount e = Num (real (quarters e) * 2 powi (- 2))"
    using a' by simp
  have s2: "sum_list (map quarters [expense1, taxiDraft]) < 2 ^ 53"
    using q by simp
  have t: "totalAmount (filteredExpenses always always travelOnly [expense1, expense2, taxiDraft])
      = Num 1292.75"
    unfolding f report_exact(1) [OF a2 s2, simplified] using q by simp
  have e: "categoryTotalsSum (filteredExpenses always always travelOnly [expense1, expense2, taxiDraft])
      = totalAmount (filteredExpenses always always travelOnly [expense1, expense2, taxiDraft])"
    using a' s by (rule category_totals_when_exact) simp_all
  from a q s f t e show ?thesis by (intro conjI)
qed

text \<open>
  The claim as stated fails. A bus fare of 0.1 (travel), a coffee of 0.2 and a snack of
  0.3 (both meals), no filter set: the amounts are the binary64 numbers nearest to
  these decimals. The total amount is \<open>(0.1 + 0.2) + 0.3\<close>, which rounds twice upwards,
  to \<open>5404319552844596 / 2 ^ 53\<close>, printed \<^verbatim>\<open>0.6000000000000001\<close>. The category totals
  are \<open>0.1\<close> and \<open>0.2 + 0.3 = 0.5\<close>, and their sum, in either order, is
  \<open>5404319552844595 / 2 ^ 53\<close>, printed \<^verbatim>\<open>0.6\<close>. With whole amounts: an invoice of
  \<open>2 ^ 53 = 9007199254740992\<close> (equipment) and two stamps of 1 (office) have the total
  amount \<open>9007199254740992\<close>, each stamp being lost to rounding, and the category
  totals \<open>9007199254740992\<close> and \<open>2\<close>, whose sum is \<open>9007199254740994\<close>.
\<close>

theorem category_totals_differ_counterexample:
  "map amount [busFare, coffee, snack]
     = [Num (3602879701896397 / 2 ^ 55), Num (3602879701896397 / 2 ^ 54),
        Num (5404319552844595 / 2 ^ 54)]
   \<and> map category [busFare, coffee, snack] = [Travel, Meals, Meals]
   \<and> filteredExpenses always always noFilters [busFare, coffee, snack] = [busFare, coffee, snack]
   \<and> totalAmount (filteredExpenses always always noFilters [busFare, coffee, snack])
        = Num (5404319552844596 / 2 ^ 53)
   \<and> expensesByCategory (filteredExpenses always always noFilters [busFare, coffee, snack])
        = [(Travel, Num (3602879701896397 / 2 ^ 55)), (Meals, Num (1 / 2))]
   \<and> categoryTotalsSum (filteredExpenses always always noFilters [busFare, coffee, snack])
        = Num (5404319552844595 / 2 ^ 53)
   \<and> foldl plusNumber (Num 0)
        (rev (map snd (expensesByCategory
           (filteredExpenses always always noFilters [busFare, coffee, snack]))))
        = Num (5404319552844595 / 2 ^ 53)
   \<and> categoryTotalsSum (filteredExpenses always always noFilters [busFare, coffee, snack])
        \<noteq> totalAmount (filteredExpenses always always noFilters [busFare, coffee, snack])
   \<and> map amount [invoice, stamp, stamp] = [Num 9007199254740992, Num 1, Num 1]
   \<and> map category [invoice, stamp, stamp] = [Equipment, Office, Office]
   \<and> totalAmount (filteredExpenses always always noFilters [invoice, stamp, stamp])
        = Num 9007199254740992
   \<and> expensesByCategory (filteredExpenses always always noFilters [invoice, stamp, stamp])
        = [(Equipment, Num 9007199254740992), (Office, Num 2)]
   \<and> categoryTotalsSum (filteredExpenses always always noFilters [invoice, stamp, stamp])
        = Num 9007199254740994
   \<and> foldl plusNumber (Num 0)
        (rev (map snd (expensesByCategory
           (filteredExpenses always always noFilters [invoice, stamp, stamp]))))
        = Num 9007199254740994"
proof -
  have a: "map amount [busFare, coffee, snack]
     = [Num (3602879701896397 / 2 ^ 55), Num (3602879701896397 / 2 ^ 54),
        Num (5404319552844595 / 2 ^ 54)]"
    by (simp only: list.map cents_amounts)
  have c: "map category [busFare, coffee, snack] = [Travel, Meals, Meals]"
    by (simp only: list.map cents_categories)
  have f: "filteredExpenses always always noFilters [busFare, coffee, snack]
      = [busFare, coffee, snack]"
    by (rule no_filters)
  have y: "(3602879701896397 / 2 ^ 54 :: real) \<noteq> 0" by simp
  have d: "Travel \<noteq> Meals" by simp
  note r = report_three [OF cents_amounts cents_categories d cents_rounding(1,2) y
      cents_rounding(3-7)]
  have t: "totalAmount (filteredExpenses always always noFilters [busFare, coffee, snack])
      = Num (5404319552844596 / 2 ^ 53)"
    unfolding f by (rule r(1))
  have b: "expensesByCategory (filteredExpenses always always noFilters [busFare, coffee, snack])
      = [(Travel, Num (3602879701896397 / 2 ^ 55)), (Meals, Num (1 / 2))]"
    unfolding f by (rule r(2))
  have s: "categoryTotalsSum (filteredExpenses always always noFilters [busFare, coffee, snack])
      = Num (5404319552844595 / 2 ^ 53)"
    unfolding f by (rule r(3))
  have v: "foldl plusNumber (Num 0)
        (rev (map snd (expensesByCategory
           (filteredExpenses always always noFilters [busFare, coffee, snack]))))
      = Num (5404319552844595 / 2 ^ 53)"
    unfolding f by (rule r(4))
  have n: "categoryTotalsSum (filteredExpenses always always noFilters [busFare, coffee, snack])
      \<noteq> totalAmount (filteredExpenses always always noFilters [busFare, coffee, snack])"
    unfolding s t by simp
  have a': "map amount [invoice, stamp, stamp] = [Num 9007199254740992, Num 1, Num 1]"
    by (simp only: list.map large_amounts)
  have c': "map category [invoice, stamp, stamp] = [Equipment, Office, Office]"
    by (simp only: list.map large_amounts)
  have f': "filteredExpenses always always noFilters [invoice, stamp, stamp]
      = [invoice, stamp, stamp]"
    by (rule no_filters)
  have y': "(1 :: real) \<noteq> 0" by simp
  have d': "Equipment \<noteq> Office" by simp
  note r' = report_three [OF large_amounts(1,2,2,3,4,4) d' large_rounding(1,2) y'
      large_rounding(3) large_rounding(3) large_rounding(4,5,6)]
  have t': "totalAmount (filteredExpenses always always noFilters [invoice, stamp, stamp])
      = Num 9007199254740992"
    unfolding f' by (rule r'(1))
  have b': "expensesByCategory (filteredExpenses always always noFilters [invoice, stamp, stamp])
      = [(Equipment, Num 9007199254740992), (Office, Num 2)]"
    unfolding f' by (rule r'(2))
  have s': "categoryTotalsSum (filteredExpenses always always noFilters [invoice, stamp, stamp])
      = Num 9007199254740994"
    unfolding f' by (rule r'(3))
  have v': "foldl plusNumber (Num 0)
        (rev (map snd (expensesByCategory
           (filteredExpenses always always noFilters [invoice, stamp, stamp]))))
      = Num 9007199254740994"
    unfolding f' by (rule r'(4))
  from a c f t b s v n a' c' t' b' s' v' show ?thesis by (intro conjI)
qed

subsection \<open>C10: what createExpense writes\<close>

text \<open>
  Claim C10. For every input object, whatever status and whatever further fields it
  carries, \<^verbatim>\<open>createExpense\<close> with user \<open>u\<close> signed in succeeds, and the record it
  returns and appends to the stored collection has status \<open>Draft\<close>, \<^verbatim>\<open>submittedBy\<close> and
  \<^verbatim>\<open>submittedByName\<close> from \<open>u\<close>, and \<^verbatim>\<open>submittedAt\<close> and \<^verbatim>\<open>id\<close> from the clock.
\<close>

theorem createExpense_stamps:
  assumes "user st = Some u"
  shows "\<exists>e. fst (createExpense nowId nowIso d st) = Inr e
           \<and> status e = Draft \<and> submittedBy e = uid u \<and> submittedByName e = name u
           \<and> submittedAt e = nowIso \<and> eid e = nowId
           \<and> allExpenses (snd (createExpense nowId nowIso d st))
               = allExpenses st @ [e\<lparr> amount := jsonAmount (amount e) \<rparr>]"
  using assms by (simp add: createExpense_signed_in createExpense_stored)

text \<open>
  Sarah passes the approved business trip, a whole expense with John as submitter, as
  input: the record created is a draft submitted by Sarah.
\<close>

theorem createExpense_stamps_witness:
  "user (started (Some sarahManager)) = Some sarahManager
   \<and> status expense1 = Approved \<and> submittedBy expense1 = ''1''
   \<and> fst (createExpense ''1698912000000'' ''2023-11-02T08:00:00.000Z'' expense1
            (started (Some sarahManager)))
       = Inr (expense1\<lparr> status := Draft, eid := ''1698912000000'', submittedBy := ''2'',
                submittedByName := ''Sarah Manager'',
                submittedAt := ''2023-11-02T08:00:00.000Z'' \<rparr>)"
proof -
  have u: "user (started (Some sarahManager)) = Some sarahManager" by simp
  from createExpense_stamps [OF u, of "''1698912000000''" "''2023-11-02T08:00:00.000Z''" expense1]
  obtain e where e:
    "fst (createExpense ''1698912000000'' ''2023-11-02T08:00:00.000Z'' expense1
            (started (Some sarahManager))) = Inr e"
    "status e = Draft" "submittedBy e = uid sarahManager"
    by blast
  have c: "fst (createExpense ''1698912000000'' ''2023-11-02T08:00:00.000Z'' expense1
            (started (Some sarahManager)))
       = Inr (expense1\<lparr> status := Draft, eid := ''1698912000000'', submittedBy := ''2'',
                submittedByName := ''Sarah Manager'',
                submittedAt := ''2023-11-02T08:00:00.000Z'' \<rparr>)"
    unfolding createExpense_signed_in [OF u] by (simp add: expense1_def sarahManager_def)
  have s: "status expense1 = Approved \<and> submittedBy expense1 = ''1''" by (simp add: expense1_def)
  from u e c s show ?thesis by simp
qed

end
